theory Spec2Isabelle
  imports Complex_Main "HOL-Library.Sublist"
begin

section \<open>Python values, strings and errors\<close>

text \<open>
  The backend is Python. A Python \<open>str\<close> is modelled as an Isabelle \<open>string\<close>, one
  \<open>char\<close> per code point, over the code points 0..255 (ASCII and Latin-1, which covers
  the Spanish text of the prompts). A Python \<open>float\<close> is modelled as the \<open>real\<close> it
  denotes. The similarity transform, where a claim depends on the last bit, rounds each
  operation to binary64; the mean of the similarities is taken exactly. Every exception the modelled
  code can raise is a value of \<open>error\<close>; a function that can raise returns
  \<open>error + 'a\<close> with \<open>Inl\<close> for the raise.
\<close>

datatype error =
    JSONDecodeError
  | ZeroDivisionError
  | IndexError
  | ValueError
  | TypeError
  | AttributeError
  | ValidationError
  | StoreError
  | ArityMismatch
  | GeneratorError

text \<open>
  A decoded JSON document, as \<open>json.loads\<close> builds it: \<open>None\<close>, \<open>bool\<close>, \<open>int\<close>,
  \<open>float\<close>, \<open>str\<close>, \<open>list\<close> and \<open>dict\<close>. A \<open>dict\<close> keeps insertion order and has
  distinct keys, so it is an association list. A float is carried by its decimal text
  (what \<open>repr\<close> prints for it).
\<close>

datatype json =
    JNull
  | JBool bool
  | JInt int
  | JFloat string
  | JStr string
  | JArr "json list"
  | JObj "(string \<times> json) list"

type_synonym pydict = "(string \<times> json) list"

subsection \<open>String methods\<close>

definition py_isspace :: "char \<Rightarrow> bool" where
  "py_isspace c =
     (let n = (of_char c :: nat)
      in (9 \<le> n \<and> n \<le> 13) \<or> (28 \<le> n \<and> n \<le> 32) \<or> n = 133 \<or> n = 160)"

definition lstrip :: "string \<Rightarrow> string" where
  "lstrip s = dropWhile py_isspace s"

definition rstrip :: "string \<Rightarrow> string" where
  "rstrip s = rev (dropWhile py_isspace (rev s))"

definition strip :: "string \<Rightarrow> string" where
  "strip s = rstrip (lstrip s)"

definition startswith :: "string \<Rightarrow> string \<Rightarrow> bool" where
  "startswith s p = prefix p s"

definition endswith :: "string \<Rightarrow> string \<Rightarrow> bool" where
  "endswith s p = suffix p s"

fun join :: "string \<Rightarrow> string list \<Rightarrow> string" where
  "join sep [] = []"
| "join sep [x] = x"
| "join sep (x # y # ys) = x @ sep @ join sep (y # ys)"

definition digit_char :: "nat \<Rightarrow> char" where
  "digit_char d = char_of (48 + d)"

fun str_nat_aux :: "nat \<Rightarrow> nat \<Rightarrow> string \<Rightarrow> string" where
  "str_nat_aux 0 n acc = acc"
| "str_nat_aux (Suc fuel) n acc =
     (if n < 10 then digit_char n # acc
      else str_nat_aux fuel (n div 10) (digit_char (n mod 10) # acc))"

definition str_nat :: "nat \<Rightarrow> string" where
  "str_nat n = str_nat_aux (Suc n) n []"

definition str_int :: "int \<Rightarrow> string" where
  "str_int i = (if i < 0 then CHR ''-'' # str_nat (nat (- i)) else str_nat (nat i))"

section \<open>Binary64 arithmetic\<close>

text \<open>
  A finite binary64 number is \<open>m * 2^e\<close> with an integer \<open>m\<close> of magnitude below
  \<open>2^53\<close> and \<open>e\<close> at least \<open>-1074\<close>. An operation on floats returns the exact result
  rounded to the nearest such number, ties to the even \<open>m\<close>. \<open>binade x\<close> is the exponent
  \<open>e\<close> with \<open>2^e \<le> x < 2^(e+1)\<close>; the spacing of the numbers around \<open>x\<close> is
  \<open>2^(e-52)\<close>, and \<open>2^-1074\<close> below the normal range. Overflow to infinity is not
  modelled: neither \<open>1 + d\<close> nor \<open>1 / (1 + d)\<close> overflows when \<open>d\<close> is a finite float.
\<close>

definition round_half_even :: "real \<Rightarrow> int" where
  "round_half_even x =
     (let f = \<lfloor>x\<rfloor>; r = x - of_int f
      in if r < 1 / 2 then f else if 1 / 2 < r then f + 1 else if even f then f else f + 1)"

definition pow2 :: "int \<Rightarrow> real" where
  "pow2 e = (if 0 \<le> e then 2 ^ nat e else 1 / 2 ^ nat (- e))"

function binade :: "real \<Rightarrow> int" where
  "binade x =
     (if x \<le> 0 then 0
      else if x < 1 then binade (2 * x) - 1
      else if 2 \<le> x then binade (x / 2) + 1
      else 0)"
  by pat_completeness auto
termination
proof (relation "measure (\<lambda>x. nat \<bar>\<lfloor>log 2 x\<rfloor>\<bar>)")
  show "wf (measure (\<lambda>x. nat \<bar>\<lfloor>log 2 x\<rfloor>\<bar>))" by simp
next
  fix x :: real
  assume a: "\<not> x \<le> 0" "x < 1"
  then have "log 2 (2 * x) = 1 + log 2 x" by (simp add: log_mult)
  moreover have "log 2 x < 0" using a by simp
  then have "\<lfloor>log 2 x\<rfloor> \<le> - 1" by linarith
  ultimately show "(2 * x, x) \<in> measure (\<lambda>x. nat \<bar>\<lfloor>log 2 x\<rfloor>\<bar>)"
    by simp
next
  fix x :: real
  assume a: "\<not> x \<le> 0" "\<not> x < 1" "2 \<le> x"
  then have "log 2 (x / 2) = log 2 x - 1" by (simp add: log_divide)
  moreover have "1 \<le> log 2 x" using a by (simp add: le_log_iff)
  then have "1 \<le> \<lfloor>log 2 x\<rfloor>" by linarith
  ultimately show "(x / 2, x) \<in> measure (\<lambda>x. nat \<bar>\<lfloor>log 2 x\<rfloor>\<bar>)"
    by simp
qed

declare binade.simps [simp del]

definition spacing_exp :: "real \<Rightarrow> int" where
  "spacing_exp x = max (binade \<bar>x\<bar>) (- 1022)"

definition ulp :: "real \<Rightarrow> real" where
  "ulp x = pow2 (spacing_exp x - 52)"

definition round_binary64 :: "real \<Rightarrow> real" where
  "round_binary64 x = of_int (round_half_even (x / ulp x)) * ulp x"

section \<open>Vector index: distance to similarity (db/chroma.py)\<close>

text \<open>
  \<open>similarity = 1 / (1 + distance)\<close> on floats: the sum is rounded, then the quotient.
  Python raises \<open>ZeroDivisionError\<close> when the divisor is zero.
\<close>

definition similarity_of :: "real \<Rightarrow> error + real" where
  "similarity_of distance =
     (let s = round_binary64 (1 + distance)
      in if s = 0 then Inl ZeroDivisionError else Inr (round_binary64 (1 / s)))"

section \<open>The JSON library (json.dumps, json.loads)\<close>

text \<open>
  \<open>json.dumps(value, ensure_ascii=...)\<close> with the default separators. The flag is the
  first argument. Strings are escaped as the encoder of the standard library escapes them.
\<close>

definition hex_digit :: "nat \<Rightarrow> char" where
  "hex_digit d = (if d < 10 then char_of (48 + d) else char_of (87 + d))"

definition u_escape :: "nat \<Rightarrow> string" where
  "u_escape n =
     [CHR 0x5C, CHR ''u'', hex_digit (n div 4096 mod 16), hex_digit (n div 256 mod 16),
      hex_digit (n div 16 mod 16), hex_digit (n mod 16)]"

definition encode_char :: "bool \<Rightarrow> char \<Rightarrow> string" where
  "encode_char ensure_ascii c =
     (let n = (of_char c :: nat) in
      if c = CHR 0x22 then [CHR 0x5C, CHR 0x22]
      else if c = CHR 0x5C then [CHR 0x5C, CHR 0x5C]
      else if n = 10 then [CHR 0x5C, CHR ''n'']
      else if n = 13 then [CHR 0x5C, CHR ''r'']
      else if n = 9 then [CHR 0x5C, CHR ''t'']
      else if n = 8 then [CHR 0x5C, CHR ''b'']
      else if n = 12 then [CHR 0x5C, CHR ''f'']
      else if n < 32 then u_escape n
      else if ensure_ascii \<and> 126 < n then u_escape n
      else [c])"

definition encode_str :: "bool \<Rightarrow> string \<Rightarrow> string" where
  "encode_str ensure_ascii s = CHR 0x22 # concat (map (encode_char ensure_ascii) s) @ [CHR 0x22]"

definition float_dumps :: "string \<Rightarrow> string" where
  "float_dumps r =
     (if r = ''nan'' then ''NaN'' else if r = ''inf'' then ''Infinity''
      else if r = ''-inf'' then ''-Infinity'' else r)"

fun json_dumps :: "bool \<Rightarrow> json \<Rightarrow> string"
and dumps_items :: "bool \<Rightarrow> json list \<Rightarrow> string list"
and dumps_members :: "bool \<Rightarrow> (string \<times> json) list \<Rightarrow> string list" where
  "json_dumps ea JNull = ''null''"
| "json_dumps ea (JBool b) = (if b then ''true'' else ''false'')"
| "json_dumps ea (JInt i) = str_int i"
| "json_dumps ea (JFloat r) = float_dumps r"
| "json_dumps ea (JStr s) = encode_str ea s"
| "json_dumps ea (JArr xs) = ''['' @ join '', '' (dumps_items ea xs) @ '']''"
| "json_dumps ea (JObj kvs) = ''{'' @ join '', '' (dumps_members ea kvs) @ ''}''"
| "dumps_items ea [] = []"
| "dumps_items ea (x # xs) = json_dumps ea x # dumps_items ea xs"
| "dumps_members ea [] = []"
| "dumps_members ea ((k, v) # kvs) =
     (encode_str ea k @ '': '' @ json_dumps ea v) # dumps_members ea kvs"

text \<open>
  \<open>json.loads\<close>: the decoder of the standard library (strict mode), as a recursive
  descent over the text. \<open>scan_once\<close> and the two loops take fuel, one unit per nested
  call; \<open>json_loads\<close> gives them more than the text can use. An integer of more than
  4300 digits raises \<open>ValueError\<close> (the interpreter's limit on integer strings); every
  other rejection is \<open>JSONDecodeError\<close>. Three things are outside the model: a \<open>\\u\<close>
  escape above \<open>00FF\<close> denotes a code point outside the modelled range and is not
  decoded; a number with a fraction or an exponent becomes a float carried by its text
  as written, not by the shortest text of the float it denotes; and the interpreter's
  recursion limit, which makes \<open>json.loads\<close> raise \<open>RecursionError\<close> on texts nested
  about a thousand levels deep, is not represented.
\<close>

definition json_ws :: "char \<Rightarrow> bool" where
  "json_ws c = (c = CHR '' '' \<or> c = CHR 0x09 \<or> c = CHR 0x0A \<or> c = CHR 0x0D)"

definition skip_ws :: "string \<Rightarrow> string" where
  "skip_ws s = dropWhile json_ws s"

definition is_digit :: "char \<Rightarrow> bool" where
  "is_digit c = (48 \<le> (of_char c :: nat) \<and> (of_char c :: nat) \<le> 57)"

definition hex_val :: "char \<Rightarrow> nat option" where
  "hex_val c =
     (let n = (of_char c :: nat) in
      if 48 \<le> n \<and> n \<le> 57 then Some (n - 48)
      else if 97 \<le> n \<and> n \<le> 102 then Some (n - 87)
      else if 65 \<le> n \<and> n \<le> 70 then Some (n - 55)
      else None)"

definition hex4_val :: "char \<Rightarrow> char \<Rightarrow> char \<Rightarrow> char \<Rightarrow> nat option" where
  "hex4_val a b c d =
     (case (hex_val a, hex_val b, hex_val c, hex_val d) of
        (Some w, Some x, Some y, Some z) \<Rightarrow> Some (w * 4096 + x * 256 + y * 16 + z)
      | _ \<Rightarrow> None)"

definition unescape :: "char \<Rightarrow> char option" where
  "unescape e =
     (if e = CHR 0x22 then Some (CHR 0x22)
      else if e = CHR 0x5C then Some (CHR 0x5C)
      else if e = CHR ''/'' then Some (CHR ''/'')
      else if e = CHR ''b'' then Some (CHR 0x08)
      else if e = CHR ''f'' then Some (CHR 0x0C)
      else if e = CHR ''n'' then Some (CHR 0x0A)
      else if e = CHR ''r'' then Some (CHR 0x0D)
      else if e = CHR ''t'' then Some (CHR 0x09)
      else None)"

fun scan_string :: "string \<Rightarrow> string \<Rightarrow> (string \<times> string) option" where
  "scan_string [] acc = None"
| "scan_string (c # cs) acc =
     (if c = CHR 0x22 then Some (rev acc, cs)
      else if c = CHR 0x5C then
        (case cs of
           [] \<Rightarrow> None
         | e # r \<Rightarrow>
             if e = CHR ''u'' then
               (case r of
                  h1 # h2 # h3 # h4 # r' \<Rightarrow>
                    (case hex4_val h1 h2 h3 h4 of
                       None \<Rightarrow> None
                     | Some n \<Rightarrow> if n < 256 then scan_string r' (char_of n # acc) else None)
                | _ \<Rightarrow> None)
             else (case unescape e of
                     None \<Rightarrow> None
                   | Some x \<Rightarrow> scan_string r (x # acc)))
      else if (of_char c :: nat) < 32 then None
      else scan_string cs (c # acc))"

definition nat_of_digits :: "string \<Rightarrow> nat" where
  "nat_of_digits ds = foldl (\<lambda>a c. 10 * a + ((of_char c :: nat) - 48)) 0 ds"

definition scan_number :: "string \<Rightarrow> (error + json \<times> string) option" where
  "scan_number s =
     (let neg = (case s of [] \<Rightarrow> False | c # _ \<Rightarrow> c = CHR ''-'');
          r = (if neg then tl s else s)
      in case r of
           [] \<Rightarrow> None
         | c # cs \<Rightarrow>
             if \<not> is_digit c then None
             else
               (let ip = (if c = CHR ''0'' then [c] else c # takeWhile is_digit cs);
                    r1 = drop (length ip) r;
                    fp = (case r1 of
                            d # f # _ \<Rightarrow>
                              if d = CHR ''.'' \<and> is_digit f then d # takeWhile is_digit (tl r1)
                              else []
                          | _ \<Rightarrow> []);
                    r2 = drop (length fp) r1;
                    ep = (case r2 of
                            [] \<Rightarrow> []
                          | e # r3 \<Rightarrow>
                              if e = CHR ''e'' \<or> e = CHR ''E'' then
                                (let sg = (case r3 of
                                             [] \<Rightarrow> []
                                           | x # _ \<Rightarrow>
                                               if x = CHR ''+'' \<or> x = CHR ''-'' then [x] else []);
                                     ds = takeWhile is_digit (drop (length sg) r3)
                                 in if ds = [] then [] else e # sg @ ds)
                              else []);
                    r4 = drop (length ep) r2
                in if fp = [] \<and> ep = []
                   then (if 4300 < length ip then Some (Inl ValueError)
                         else Some (Inr (JInt ((if neg then - 1 else 1) * int (nat_of_digits ip)),
                                         r4)))
                   else Some (Inr (JFloat ((if neg then ''-'' else []) @ ip @ fp @ ep), r4))))"

fun dict_set :: "(string \<times> 'v) list \<Rightarrow> string \<Rightarrow> 'v \<Rightarrow> (string \<times> 'v) list" where
  "dict_set [] k v = [(k, v)]"
| "dict_set ((k', v') # kvs) k v =
     (if k' = k then (k, v) # kvs else (k', v') # dict_set kvs k v)"

fun scan_once :: "nat \<Rightarrow> string \<Rightarrow> error + json \<times> string"
and scan_array :: "nat \<Rightarrow> json list \<Rightarrow> string \<Rightarrow> error + json \<times> string"
and scan_object :: "nat \<Rightarrow> pydict \<Rightarrow> string \<Rightarrow> error + json \<times> string" where
  "scan_once 0 s = Inl JSONDecodeError"
| "scan_once (Suc n) s =
     (case s of
        [] \<Rightarrow> Inl JSONDecodeError
      | c # cs \<Rightarrow>
          if c = CHR 0x22 then
            (case scan_string cs [] of
               None \<Rightarrow> Inl JSONDecodeError
             | Some (x, r) \<Rightarrow> Inr (JStr x, r))
          else if c = CHR ''{'' then
            (case skip_ws cs of
               [] \<Rightarrow> Inl JSONDecodeError
             | d # ds \<Rightarrow> if d = CHR ''}'' then Inr (JObj [], ds) else scan_object n [] (d # ds))
          else if c = CHR ''['' then
            (case skip_ws cs of
               [] \<Rightarrow> Inl JSONDecodeError
             | d # ds \<Rightarrow> if d = CHR '']'' then Inr (JArr [], ds) else scan_array n [] (d # ds))
          else if startswith s ''null'' then Inr (JNull, drop 4 s)
          else if startswith s ''true'' then Inr (JBool True, drop 4 s)
          else if startswith s ''false'' then Inr (JBool False, drop 5 s)
          else (case scan_number s of
                  Some res \<Rightarrow> res
                | None \<Rightarrow>
                    if startswith s ''NaN'' then Inr (JFloat ''nan'', drop 3 s)
                    else if startswith s ''Infinity'' then Inr (JFloat ''inf'', drop 8 s)
                    else if startswith s ''-Infinity'' then Inr (JFloat ''-inf'', drop 9 s)
                    else Inl JSONDecodeError))"
| "scan_array 0 acc s = Inl JSONDecodeError"
| "scan_array (Suc n) acc s =
     (case scan_once n s of
        Inl e \<Rightarrow> Inl e
      | Inr (v, r) \<Rightarrow>
          (case skip_ws r of
             [] \<Rightarrow> Inl JSONDecodeError
           | d # ds \<Rightarrow>
               if d = CHR '']'' then Inr (JArr (acc @ [v]), ds)
               else if d = CHR '','' then scan_array n (acc @ [v]) (skip_ws ds)
               else Inl JSONDecodeError))"
| "scan_object 0 acc s = Inl JSONDecodeError"
| "scan_object (Suc n) acc s =
     (case s of
        [] \<Rightarrow> Inl JSONDecodeError
      | q # cs \<Rightarrow>
          if q \<noteq> CHR 0x22 then Inl JSONDecodeError
          else
            (case scan_string cs [] of
               None \<Rightarrow> Inl JSONDecodeError
             | Some (k, r) \<Rightarrow>
                 (case skip_ws r of
                    [] \<Rightarrow> Inl JSONDecodeError
                  | col # r1 \<Rightarrow>
                      if col \<noteq> CHR '':'' then Inl JSONDecodeError
                      else
                        (case scan_once n (skip_ws r1) of
                           Inl e \<Rightarrow> Inl e
                         | Inr (v, r2) \<Rightarrow>
                             (case skip_ws r2 of
                                [] \<Rightarrow> Inl JSONDecodeError
                              | d # ds \<Rightarrow>
                                  if d = CHR ''}'' then Inr (JObj (dict_set acc k v), ds)
                                  else if d = CHR '','' then
                                    scan_object n (dict_set acc k v) (skip_ws ds)
                                  else Inl JSONDecodeError)))))"

definition json_loads :: "string \<Rightarrow> error + json" where
  "json_loads s =
     (case scan_once (Suc (Suc (2 * length s))) (skip_ws s) of
        Inl e \<Rightarrow> Inl e
      | Inr (v, r) \<Rightarrow> if skip_ws r = [] then Inr v else Inl JSONDecodeError)"

section \<open>ResponseParser: RAGService._parse_json_response (services/rag.py)\<close>

text \<open>
  The decoder is an argument (\<open>loads\<close>, standing for \<open>json.loads\<close>), so that what is
  proved of the parser holds for the library's decoder whatever it accepts. Only
  \<open>json.JSONDecodeError\<close> is caught; any other exception of the decoder propagates.
  \<open>re.search(r'\{[\s\S]*\}', content)\<close> is greedy: the match runs from the first
  \<open>{\<close> to the last \<open>}\<close> after it.
\<close>

definition re_search_braces :: "string \<Rightarrow> string option" where
  "re_search_braces content =
     (let from_open = dropWhile (\<lambda>c. c \<noteq> CHR ''{'') content;
          span = rev (dropWhile (\<lambda>c. c \<noteq> CHR ''}'') (rev from_open))
      in if span = [] then None else Some span)"

definition clean_content :: "string \<Rightarrow> string" where
  "clean_content content0 =
     (let c1 = strip content0;
          c2 = (if startswith c1 ''```json'' then drop 7 c1 else c1);
          c3 = (if startswith c2 ''```'' then drop 3 c2 else c2);
          c4 = (if endswith c3 ''```'' then take (length c3 - 3) c3 else c3)
      in strip c4)"

definition error_payload :: "string \<Rightarrow> json" where
  "error_payload content =
     JObj [(''error'', JStr ''No se pudo parsear la respuesta''),
           (''raw'', JStr (take 500 content))]"

definition parse_json_response :: "(string \<Rightarrow> error + json) \<Rightarrow> string \<Rightarrow> error + json" where
  "parse_json_response loads content0 =
     (let content = clean_content content0 in
      case loads content of
        Inr v \<Rightarrow> Inr v
      | Inl e \<Rightarrow>
          if e \<noteq> JSONDecodeError then Inl e
          else
            (case re_search_braces content of
               None \<Rightarrow> Inr (error_payload content)
             | Some m \<Rightarrow>
                 (case loads m of
                    Inr v \<Rightarrow> Inr v
                  | Inl e' \<Rightarrow>
                      if e' \<noteq> JSONDecodeError then Inl e'
                      else Inr (error_payload content))))"

section \<open>Python builtins: truth value, str and repr, float formatting\<close>

text \<open>
  The truth value of a decoded value (\<open>if value:\<close>). A float is zero when every digit
  of its mantissa is \<open>0\<close>.
\<close>

definition float_is_zero :: "string \<Rightarrow> bool" where
  "float_is_zero r =
     (let ds = filter is_digit (takeWhile (\<lambda>c. c \<noteq> CHR ''e'' \<and> c \<noteq> CHR ''E'') r)
      in ds \<noteq> [] \<and> list_all (\<lambda>c. c = CHR ''0'') ds)"

fun truthy :: "json \<Rightarrow> bool" where
  "truthy JNull = False"
| "truthy (JBool b) = b"
| "truthy (JInt i) = (i \<noteq> 0)"
| "truthy (JFloat r) = (\<not> float_is_zero r)"
| "truthy (JStr s) = (s \<noteq> [])"
| "truthy (JArr xs) = (xs \<noteq> [])"
| "truthy (JObj kvs) = (kvs \<noteq> [])"

definition py_printable :: "char \<Rightarrow> bool" where
  "py_printable c =
     (let n = (of_char c :: nat) in (32 \<le> n \<and> n < 127) \<or> (161 \<le> n \<and> n \<noteq> 173))"

definition x_escape :: "nat \<Rightarrow> string" where
  "x_escape n = [CHR 0x5C, CHR ''x'', hex_digit (n div 16), hex_digit (n mod 16)]"

definition repr_char :: "char \<Rightarrow> char \<Rightarrow> string" where
  "repr_char quote c =
     (let n = (of_char c :: nat) in
      if c = quote \<or> c = CHR 0x5C then [CHR 0x5C, c]
      else if n = 9 then [CHR 0x5C, CHR ''t'']
      else if n = 10 then [CHR 0x5C, CHR ''n'']
      else if n = 13 then [CHR 0x5C, CHR ''r'']
      else if py_printable c then [c]
      else x_escape n)"

definition repr_str :: "string \<Rightarrow> string" where
  "repr_str s =
     (let quote = (if CHR 0x27 \<in> set s \<and> CHR 0x22 \<notin> set s then CHR 0x22 else CHR 0x27)
      in quote # concat (map (repr_char quote) s) @ [quote])"

fun py_repr :: "json \<Rightarrow> string"
and repr_items :: "json list \<Rightarrow> string list"
and repr_members :: "(string \<times> json) list \<Rightarrow> string list" where
  "py_repr JNull = ''None''"
| "py_repr (JBool b) = (if b then ''True'' else ''False'')"
| "py_repr (JInt i) = str_int i"
| "py_repr (JFloat r) = r"
| "py_repr (JStr s) = repr_str s"
| "py_repr (JArr xs) = ''['' @ join '', '' (repr_items xs) @ '']''"
| "py_repr (JObj kvs) = ''{'' @ join '', '' (repr_members kvs) @ ''}''"
| "repr_items [] = []"
| "repr_items (x # xs) = py_repr x # repr_items xs"
| "repr_members [] = []"
| "repr_members ((k, v) # kvs) = (repr_str k @ '': '' @ py_repr v) # repr_members kvs"

definition py_str :: "json \<Rightarrow> string" where
  "py_str v = (case v of JStr s \<Rightarrow> s | _ \<Rightarrow> py_repr v)"

text \<open>
  \<open>f"{x:.2f}"\<close>: the value rounded to hundredths, ties to even, printed with two
  decimals.
\<close>

definition format_2f :: "real \<Rightarrow> string" where
  "format_2f x =
     (let n = nat (round_half_even (\<bar>x\<bar> * 100))
      in (if x < 0 then ''-'' else []) @ str_nat (n div 100) @ ''.'' @
         [digit_char (n mod 100 div 10), digit_char (n mod 10)])"

section \<open>Data model (db/models.py)\<close>

datatype TdrTipo = BIEN | OBRA | CONSULTORIA_OBRA | SERVICIO

fun tipo_value :: "TdrTipo \<Rightarrow> string" where
  "tipo_value BIEN = ''BIEN''"
| "tipo_value OBRA = ''OBRA''"
| "tipo_value CONSULTORIA_OBRA = ''CONSULTORIA_OBRA''"
| "tipo_value SERVICIO = ''SERVICIO''"

text \<open>
  A metadata value of the vector store is a scalar. \<open>TdrTipo(x)\<close> raises \<open>ValueError\<close>
  unless \<open>x\<close> is the value of a member.
\<close>

datatype scalar = SStr string | SInt int | SFloat real | SBool bool

type_synonym metadata = "string \<Rightarrow> scalar option"

definition TdrTipo_of :: "scalar \<Rightarrow> error + TdrTipo" where
  "TdrTipo_of x =
     (case x of
        SStr s \<Rightarrow>
          if s = ''BIEN'' then Inr BIEN
          else if s = ''OBRA'' then Inr OBRA
          else if s = ''CONSULTORIA_OBRA'' then Inr CONSULTORIA_OBRA
          else if s = ''SERVICIO'' then Inr SERVICIO
          else Inl ValueError
      | _ \<Rightarrow> Inl ValueError)"

record TdrSearchResult =
  sr_id :: string
  sr_filename :: string
  sr_tipo :: TdrTipo
  sr_similarity :: real
  sr_fields :: pydict

record GenerateFieldsResponse =
  gr_success :: bool
  gr_tipo :: TdrTipo
  gr_campos_sugeridos :: pydict
  gr_referencias_usadas :: "TdrSearchResult list"
  gr_confidence :: real

text \<open>
  The two constructors validate their arguments (pydantic): a field declared \<open>str\<close>
  takes a string, a field declared \<open>dict[str, Any]\<close> takes a mapping; anything else is a
  \<open>ValidationError\<close>.
\<close>

definition new_TdrSearchResult ::
  "string \<Rightarrow> scalar \<Rightarrow> TdrTipo \<Rightarrow> real \<Rightarrow> json \<Rightarrow> error + TdrSearchResult" where
  "new_TdrSearchResult rid filename t similarity flds =
     (case (filename, flds) of
        (SStr fname, JObj kvs) \<Rightarrow>
          Inr \<lparr>sr_id = rid, sr_filename = fname, sr_tipo = t, sr_similarity = similarity,
               sr_fields = kvs\<rparr>
      | _ \<Rightarrow> Inl ValidationError)"

definition new_GenerateFieldsResponse ::
  "bool \<Rightarrow> TdrTipo \<Rightarrow> json \<Rightarrow> TdrSearchResult list \<Rightarrow> real \<Rightarrow> error + GenerateFieldsResponse" where
  "new_GenerateFieldsResponse ok t campos referencias conf =
     (case campos of
        JObj kvs \<Rightarrow>
          Inr \<lparr>gr_success = ok, gr_tipo = t, gr_campos_sugeridos = kvs,
               gr_referencias_usadas = referencias, gr_confidence = conf\<rparr>
      | _ \<Rightarrow> Inl ValidationError)"

section \<open>VectorIndex: ChromaDBClient.search (db/chroma.py)\<close>

text \<open>
  What \<open>collection.query\<close> returns for the single query vector: one list of ids, and
  optionally one list of metadatas and one of distances.
\<close>

record query_result =
  qr_ids :: "string list list"
  qr_metadatas :: "metadata list list option"
  qr_distances :: "real list list option"

definition nth_or_raise :: "'a list \<Rightarrow> nat \<Rightarrow> error + 'a" where
  "nth_or_raise xs i = (if i < length xs then Inr (xs ! i) else Inl IndexError)"

definition metadata_at :: "query_result \<Rightarrow> nat \<Rightarrow> error + metadata" where
  "metadata_at results i =
     (case qr_metadatas results of
        None \<Rightarrow> Inr Map.empty
      | Some [] \<Rightarrow> Inr Map.empty
      | Some (m0 # _) \<Rightarrow> nth_or_raise m0 i)"

definition distance_at :: "query_result \<Rightarrow> nat \<Rightarrow> error + real" where
  "distance_at results i =
     (case qr_distances results of
        None \<Rightarrow> Inr 1
      | Some [] \<Rightarrow> Inr 1
      | Some (d0 # _) \<Rightarrow> nth_or_raise d0 i)"

definition parse_fields :: "(string \<Rightarrow> error + json) \<Rightarrow> metadata \<Rightarrow> error + json" where
  "parse_fields loads md =
     (case md ''fields_json'' of
        None \<Rightarrow> Inr (JObj [])
      | Some (SStr s) \<Rightarrow>
          (case loads s of
             Inr v \<Rightarrow> Inr v
           | Inl e \<Rightarrow> if e = JSONDecodeError then Inr (JObj []) else Inl e)
      | Some _ \<Rightarrow> Inl TypeError)"

definition build_search_result ::
  "(string \<Rightarrow> error + json) \<Rightarrow> query_result \<Rightarrow> nat \<Rightarrow> string \<Rightarrow> error + TdrSearchResult" where
  "build_search_result loads results i rid =
     (case metadata_at results i of
        Inl e \<Rightarrow> Inl e
      | Inr md \<Rightarrow>
          (case distance_at results i of
             Inl e \<Rightarrow> Inl e
           | Inr distance \<Rightarrow>
               (case similarity_of distance of
                  Inl e \<Rightarrow> Inl e
                | Inr similarity \<Rightarrow>
                    (case parse_fields loads md of
                       Inl e \<Rightarrow> Inl e
                     | Inr flds \<Rightarrow>
                         (case TdrTipo_of (case md ''tipo'' of None \<Rightarrow> SStr ''SERVICIO'' | Some x \<Rightarrow> x) of
                            Inl e \<Rightarrow> Inl e
                          | Inr t \<Rightarrow>
                              new_TdrSearchResult rid
                                (case md ''filename'' of None \<Rightarrow> SStr [] | Some x \<Rightarrow> x)
                                t similarity flds)))))"





fun search_loop ::
  "(string \<Rightarrow> error + json) \<Rightarrow> query_result \<Rightarrow> nat \<Rightarrow> string list \<Rightarrow> TdrSearchResult list
   \<Rightarrow> error + TdrSearchResult list" where
  "search_loop loads results i [] search_results = Inr search_results"
| "search_loop loads results i (rid # ids) search_results =
     (case build_search_result loads results i rid of
        Inl e \<Rightarrow> Inl e
      | Inr r \<Rightarrow> search_loop loads results (Suc i) ids (search_results @ [r]))"

text \<open>
  The collaborators of the service: the embedding model, the collection's query, the
  JSON decoder, the text generator and the configured model name.
\<close>

record gen_call =
  gc_model :: string
  gc_contents :: string
  gc_temperature :: real
  gc_max_output_tokens :: nat

record env =
  env_embed :: "string \<Rightarrow> real list"
  env_query :: "real list \<Rightarrow> int \<Rightarrow> (string \<times> string) option \<Rightarrow> error + query_result"
  env_loads :: "string \<Rightarrow> error + json"
  env_generate :: "gen_call \<Rightarrow> error + string option"
  env_model :: string

definition search :: "env \<Rightarrow> real list \<Rightarrow> int \<Rightarrow> TdrTipo option \<Rightarrow> error + TdrSearchResult list" where
  "search E query_embedding n_results t =
     (let where_filter = map_option (\<lambda>x. (''tipo'', tipo_value x)) t in
      case env_query E query_embedding n_results where_filter of
        Inl e \<Rightarrow> Inl e
      | Inr results \<Rightarrow>
          (case qr_ids results of
             [] \<Rightarrow> Inr []
           | ids0 # _ \<Rightarrow>
               if ids0 = [] then Inr [] else search_loop (env_loads E) results 0 ids0 []))"

section \<open>ContextBuilder: RAGService._build_context (services/rag.py)\<close>

definition value_str :: "json \<Rightarrow> string" where
  "value_str v =
     (case v of
        JArr _ \<Rightarrow> take 500 (json_dumps False v)
      | JObj _ \<Rightarrow> take 500 (json_dumps False v)
      | _ \<Rightarrow> take 500 (py_str v))"

fun fields_loop :: "(string \<times> json) list \<Rightarrow> string list \<Rightarrow> string list" where
  "fields_loop [] context_parts = context_parts"
| "fields_loop ((key, v) # kvs) context_parts =
     fields_loop kvs
       (if truthy v then context_parts @ [''  '' @ key @ '': '' @ value_str v]
        else context_parts)"

definition referencia_header :: "nat \<Rightarrow> real \<Rightarrow> string" where
  "referencia_header i similarity =
     ''=== REFERENCIA '' @ str_nat i @ '' (Similaridad: '' @ format_2f similarity @ '') ===''"

fun referencias_loop :: "nat \<Rightarrow> TdrSearchResult list \<Rightarrow> string list \<Rightarrow> string list" where
  "referencias_loop i [] context_parts = context_parts"
| "referencias_loop i (ref # refs) context_parts =
     (let p1 = context_parts @ [referencia_header i (sr_similarity ref)];
          p2 = p1 @ [''Archivo: '' @ sr_filename ref];
          p3 = p2 @ [''Tipo: '' @ tipo_value (sr_tipo ref)];
          p4 = fields_loop (take 15 (sr_fields ref)) p3;
          p5 = p4 @ [[]]
      in referencias_loop (Suc i) refs p5)"

definition build_context :: "TdrSearchResult list \<Rightarrow> string" where
  "build_context referencias = join [CHR 0x0A] (referencias_loop 1 referencias [])"

text \<open>
  The block of one reference, as the context is compared with it: the header with the
  rank and the similarity, the file, the type, one line per field among the first 15
  whose value is true, and the empty line that separates the blocks.
\<close>

definition field_lines :: "pydict \<Rightarrow> string list" where
  "field_lines flds =
     map (\<lambda>(key, v). ''  '' @ key @ '': '' @ value_str v)
       (filter (\<lambda>(key, v). truthy v) (take 15 flds))"

definition referencia_block :: "nat \<Rightarrow> TdrSearchResult \<Rightarrow> string list" where
  "referencia_block i ref =
     [referencia_header i (sr_similarity ref), ''Archivo: '' @ sr_filename ref,
      ''Tipo: '' @ tipo_value (sr_tipo ref)]
     @ field_lines (sr_fields ref) @ [[]]"

section \<open>PromptComposer: the two prompt templates (services/rag.py)\<close>

text \<open>\<open>x or default\<close> for an optional string: the default replaces \<open>None\<close> and \<open>""\<close>.\<close>

definition str_or :: "string option \<Rightarrow> string \<Rightarrow> string" where
  "str_or x d = (case x of None \<Rightarrow> d | Some s \<Rightarrow> if s = [] then d else s)"

definition campos_BIEN :: string where
  "campos_BIEN =
     [CHR 0x0A] @
     ''  '' @ [CHR 0x22] @ ''denominacion_contratacion'' @ [CHR 0x22] @ '': '' @ [CHR 0x22] @ ''Nombre completo de la contrataci'' @ [CHR 0xF3] @ ''n'' @ [CHR 0x22] @ '','' @ [CHR 0x0A] @
     ''  '' @ [CHR 0x22] @ ''finalidad_publica'' @ [CHR 0x22] @ '': '' @ [CHR 0x22] @ ''Para qu'' @ [CHR 0xE9] @ '' se necesita este bien, beneficio a la ciudadan'' @ [CHR 0xED] @ ''a'' @ [CHR 0x22] @ '','' @ [CHR 0x0A] @
     ''  '' @ [CHR 0x22] @ ''objetivo_general'' @ [CHR 0x22] @ '': '' @ [CHR 0x22] @ ''Objetivo principal de la contrataci'' @ [CHR 0xF3] @ ''n'' @ [CHR 0x22] @ '','' @ [CHR 0x0A] @
     ''  '' @ [CHR 0x22] @ ''objetivos_especificos'' @ [CHR 0x22] @ '': '' @ [CHR 0x22] @ ''Lista de objetivos espec'' @ [CHR 0xED] @ ''ficos separados por punto y coma'' @ [CHR 0x22] @ '','' @ [CHR 0x0A] @
     ''  '' @ [CHR 0x22] @ ''alcance_descripcion_bienes'' @ [CHR 0x22] @ '': '' @ [CHR 0x22] @ ''Descripci'' @ [CHR 0xF3] @ ''n detallada del bien a adquirir'' @ [CHR 0x22] @ '','' @ [CHR 0x0A] @
     ''  '' @ [CHR 0x22] @ ''caracteristicas'' @ [CHR 0x22] @ '': '' @ [CHR 0x22] @ ''Caracter'' @ [CHR 0xED] @ ''sticas f'' @ [CHR 0xED] @ ''sicas y funcionales del bien'' @ [CHR 0x22] @ '','' @ [CHR 0x0A] @
     ''  '' @ [CHR 0x22] @ ''caracteristicas_tecnicas'' @ [CHR 0x22] @ '': '' @ [CHR 0x22] @ ''Especificaciones t'' @ [CHR 0xE9] @ ''cnicas detalladas'' @ [CHR 0x22] @ '','' @ [CHR 0x0A] @
     ''  '' @ [CHR 0x22] @ ''cantidad'' @ [CHR 0x22] @ '': '' @ [CHR 0x22] @ ''Cantidad a adquirir (n'' @ [CHR 0xFA] @ ''mero)'' @ [CHR 0x22] @ '','' @ [CHR 0x0A] @
     ''  '' @ [CHR 0x22] @ ''unidad_medida'' @ [CHR 0x22] @ '': '' @ [CHR 0x22] @ ''Unidad de medida (unidad, caja, etc.)'' @ [CHR 0x22] @ '','' @ [CHR 0x0A] @
     ''  '' @ [CHR 0x22] @ ''perfil_proveedor'' @ [CHR 0x22] @ '': '' @ [CHR 0x22] @ ''Requisitos que debe cumplir el proveedor'' @ [CHR 0x22] @ '','' @ [CHR 0x0A] @
     ''  '' @ [CHR 0x22] @ ''requisitos_proveedor'' @ [CHR 0x22] @ '': '' @ [CHR 0x22] @ ''Lista de documentos y requisitos'' @ [CHR 0x22] @ '','' @ [CHR 0x0A] @
     ''  '' @ [CHR 0x22] @ ''plazo'' @ [CHR 0x22] @ '': '' @ [CHR 0x22] @ ''Plazo de entrega en d'' @ [CHR 0xED] @ ''as calendario'' @ [CHR 0x22] @ '','' @ [CHR 0x0A] @
     ''  '' @ [CHR 0x22] @ ''lugar'' @ [CHR 0x22] @ '': '' @ [CHR 0x22] @ ''Lugar de entrega del bien'' @ [CHR 0x22] @ '','' @ [CHR 0x0A] @
     ''  '' @ [CHR 0x22] @ ''forma_pago'' @ [CHR 0x22] @ '': '' @ [CHR 0x22] @ ''Condiciones de pago'' @ [CHR 0x22] @ '','' @ [CHR 0x0A] @
     ''  '' @ [CHR 0x22] @ ''garantia_comercial'' @ [CHR 0x22] @ '': '' @ [CHR 0x22] @ ''Periodo de garant'' @ [CHR 0xED] @ ''a del bien'' @ [CHR 0x22] @ '','' @ [CHR 0x0A] @
     ''  '' @ [CHR 0x22] @ ''penalidades'' @ [CHR 0x22] @ '': '' @ [CHR 0x22] @ ''Penalidades por incumplimiento'' @ [CHR 0x22] @ '','' @ [CHR 0x0A] @
     ''  '' @ [CHR 0x22] @ ''anticorrupcion_antisoborno'' @ [CHR 0x22] @ '': '' @ [CHR 0x22] @ ''Cl'' @ [CHR 0xE1] @ ''usula est'' @ [CHR 0xE1] @ ''ndar anticorrupci'' @ [CHR 0xF3] @ ''n'' @ [CHR 0x22] @ '','' @ [CHR 0x0A] @
     ''  '' @ [CHR 0x22] @ ''conformidad'' @ [CHR 0x22] @ '': '' @ [CHR 0x22] @ ''Qui'' @ [CHR 0xE9] @ ''n otorga la conformidad'' @ [CHR 0x22] @ '','' @ [CHR 0x0A] @
     ''  '' @ [CHR 0x22] @ ''antecedentes'' @ [CHR 0x22] @ '': '' @ [CHR 0x22] @ ''Contexto y antecedentes de la necesidad'' @ [CHR 0x22, CHR 0x0A]"

definition campos_SERVICIO :: string where
  "campos_SERVICIO =
     [CHR 0x0A] @
     ''  '' @ [CHR 0x22] @ ''denominacion_contratacion'' @ [CHR 0x22] @ '': '' @ [CHR 0x22] @ ''Nombre completo del servicio'' @ [CHR 0x22] @ '','' @ [CHR 0x0A] @
     ''  '' @ [CHR 0x22] @ ''finalidad_publica'' @ [CHR 0x22] @ '': '' @ [CHR 0x22] @ ''Para qu'' @ [CHR 0xE9] @ '' se necesita este servicio, beneficio a la ciudadan'' @ [CHR 0xED] @ ''a'' @ [CHR 0x22] @ '','' @ [CHR 0x0A] @
     ''  '' @ [CHR 0x22] @ ''objetivo_contratacion'' @ [CHR 0x22] @ '': '' @ [CHR 0x22] @ ''Objetivo principal de la contrataci'' @ [CHR 0xF3] @ ''n'' @ [CHR 0x22] @ '','' @ [CHR 0x0A] @
     ''  '' @ [CHR 0x22] @ ''objetivo_general'' @ [CHR 0x22] @ '': '' @ [CHR 0x22] @ ''Objetivo general del servicio'' @ [CHR 0x22] @ '','' @ [CHR 0x0A] @
     ''  '' @ [CHR 0x22] @ ''objetivos_especificos'' @ [CHR 0x22] @ '': '' @ [CHR 0x22] @ ''Lista de objetivos espec'' @ [CHR 0xED] @ ''ficos'' @ [CHR 0x22] @ '','' @ [CHR 0x0A] @
     ''  '' @ [CHR 0x22] @ ''alcance_descripcion_servicio'' @ [CHR 0x22] @ '': '' @ [CHR 0x22] @ ''Descripci'' @ [CHR 0xF3] @ ''n detallada del servicio'' @ [CHR 0x22] @ '','' @ [CHR 0x0A] @
     ''  '' @ [CHR 0x22] @ ''actividades'' @ [CHR 0x22] @ '': '' @ [CHR 0x22] @ ''Lista de actividades a realizar'' @ [CHR 0x22] @ '','' @ [CHR 0x0A] @
     ''  '' @ [CHR 0x22] @ ''entregables'' @ [CHR 0x22] @ '': '' @ [CHR 0x22] @ ''Lista de entregables con plazos'' @ [CHR 0x22] @ '','' @ [CHR 0x0A] @
     ''  '' @ [CHR 0x22] @ ''perfil_proveedor'' @ [CHR 0x22] @ '': '' @ [CHR 0x22] @ ''Perfil profesional requerido (formaci'' @ [CHR 0xF3] @ ''n, experiencia, conocimientos)'' @ [CHR 0x22] @ '','' @ [CHR 0x0A] @
     ''  '' @ [CHR 0x22] @ ''requisitos_proveedor'' @ [CHR 0x22] @ '': '' @ [CHR 0x22] @ ''Requisitos documentarios del proveedor'' @ [CHR 0x22] @ '','' @ [CHR 0x0A] @
     ''  '' @ [CHR 0x22] @ ''formacion_academica'' @ [CHR 0x22] @ '': '' @ [CHR 0x22] @ ''Formaci'' @ [CHR 0xF3] @ ''n acad'' @ [CHR 0xE9] @ ''mica requerida'' @ [CHR 0x22] @ '','' @ [CHR 0x0A] @
     ''  '' @ [CHR 0x22] @ ''experiencia'' @ [CHR 0x22] @ '': '' @ [CHR 0x22] @ ''Experiencia laboral requerida'' @ [CHR 0x22] @ '','' @ [CHR 0x0A] @
     ''  '' @ [CHR 0x22] @ ''plazo'' @ [CHR 0x22] @ '': '' @ [CHR 0x22] @ ''Plazo de ejecuci'' @ [CHR 0xF3] @ ''n del servicio'' @ [CHR 0x22] @ '','' @ [CHR 0x0A] @
     ''  '' @ [CHR 0x22] @ ''lugar'' @ [CHR 0x22] @ '': '' @ [CHR 0x22] @ ''Lugar de prestaci'' @ [CHR 0xF3] @ ''n del servicio'' @ [CHR 0x22] @ '','' @ [CHR 0x0A] @
     ''  '' @ [CHR 0x22] @ ''forma_pago'' @ [CHR 0x22] @ '': '' @ [CHR 0x22] @ ''Condiciones y forma de pago'' @ [CHR 0x22] @ '','' @ [CHR 0x0A] @
     ''  '' @ [CHR 0x22] @ ''penalidades'' @ [CHR 0x22] @ '': '' @ [CHR 0x22] @ ''Penalidades por incumplimiento'' @ [CHR 0x22] @ '','' @ [CHR 0x0A] @
     ''  '' @ [CHR 0x22] @ ''confidencialidad'' @ [CHR 0x22] @ '': '' @ [CHR 0x22] @ ''Cl'' @ [CHR 0xE1] @ ''usula de confidencialidad'' @ [CHR 0x22] @ '','' @ [CHR 0x0A] @
     ''  '' @ [CHR 0x22] @ ''anticorrupcion_antisoborno'' @ [CHR 0x22] @ '': '' @ [CHR 0x22] @ ''Cl'' @ [CHR 0xE1] @ ''usula est'' @ [CHR 0xE1] @ ''ndar anticorrupci'' @ [CHR 0xF3] @ ''n'' @ [CHR 0x22] @ '','' @ [CHR 0x0A] @
     ''  '' @ [CHR 0x22] @ ''conformidad'' @ [CHR 0x22] @ '': '' @ [CHR 0x22] @ ''Qui'' @ [CHR 0xE9] @ ''n otorga la conformidad'' @ [CHR 0x22] @ '','' @ [CHR 0x0A] @
     ''  '' @ [CHR 0x22] @ ''antecedentes'' @ [CHR 0x22] @ '': '' @ [CHR 0x22] @ ''Contexto y antecedentes de la necesidad'' @ [CHR 0x22, CHR 0x0A]"

definition campos_CONSULTORIA_OBRA :: string where
  "campos_CONSULTORIA_OBRA =
     [CHR 0x0A] @
     ''  '' @ [CHR 0x22] @ ''denominacion_contratacion'' @ [CHR 0x22] @ '': '' @ [CHR 0x22] @ ''Nombre de la consultor'' @ [CHR 0xED] @ ''a'' @ [CHR 0x22] @ '','' @ [CHR 0x0A] @
     ''  '' @ [CHR 0x22] @ ''finalidad_publica'' @ [CHR 0x22] @ '': '' @ [CHR 0x22] @ ''Beneficio p'' @ [CHR 0xFA] @ ''blico de la consultor'' @ [CHR 0xED] @ ''a'' @ [CHR 0x22] @ '','' @ [CHR 0x0A] @
     ''  '' @ [CHR 0x22] @ ''objetivo_contratacion'' @ [CHR 0x22] @ '': '' @ [CHR 0x22] @ ''Objetivo de la contrataci'' @ [CHR 0xF3] @ ''n'' @ [CHR 0x22] @ '','' @ [CHR 0x0A] @
     ''  '' @ [CHR 0x22] @ ''objetivo_general'' @ [CHR 0x22] @ '': '' @ [CHR 0x22] @ ''Objetivo general'' @ [CHR 0x22] @ '','' @ [CHR 0x0A] @
     ''  '' @ [CHR 0x22] @ ''objetivos_especificos'' @ [CHR 0x22] @ '': '' @ [CHR 0x22] @ ''Objetivos espec'' @ [CHR 0xED] @ ''ficos'' @ [CHR 0x22] @ '','' @ [CHR 0x0A] @
     ''  '' @ [CHR 0x22] @ ''alcance_servicio'' @ [CHR 0x22] @ '': '' @ [CHR 0x22] @ ''Alcance de la consultor'' @ [CHR 0xED] @ ''a'' @ [CHR 0x22] @ '','' @ [CHR 0x0A] @
     ''  '' @ [CHR 0x22] @ ''descripcion_detallada_servicio'' @ [CHR 0x22] @ '': '' @ [CHR 0x22] @ ''Descripci'' @ [CHR 0xF3] @ ''n detallada'' @ [CHR 0x22] @ '','' @ [CHR 0x0A] @
     ''  '' @ [CHR 0x22] @ ''actividades'' @ [CHR 0x22] @ '': '' @ [CHR 0x22] @ ''Actividades de la consultor'' @ [CHR 0xED] @ ''a'' @ [CHR 0x22] @ '','' @ [CHR 0x0A] @
     ''  '' @ [CHR 0x22] @ ''plan_trabajo'' @ [CHR 0x22] @ '': '' @ [CHR 0x22] @ ''Plan de trabajo propuesto'' @ [CHR 0x22] @ '','' @ [CHR 0x0A] @
     ''  '' @ [CHR 0x22] @ ''supervision'' @ [CHR 0x22] @ '': '' @ [CHR 0x22] @ ''Supervisi'' @ [CHR 0xF3] @ ''n del servicio'' @ [CHR 0x22] @ '','' @ [CHR 0x0A] @
     ''  '' @ [CHR 0x22] @ ''funciones_especificas'' @ [CHR 0x22] @ '': '' @ [CHR 0x22] @ ''Funciones del consultor'' @ [CHR 0x22] @ '','' @ [CHR 0x0A] @
     ''  '' @ [CHR 0x22] @ ''perfil_proveedor'' @ [CHR 0x22] @ '': '' @ [CHR 0x22] @ ''Perfil profesional requerido'' @ [CHR 0x22] @ '','' @ [CHR 0x0A] @
     ''  '' @ [CHR 0x22] @ ''plazo'' @ [CHR 0x22] @ '': '' @ [CHR 0x22] @ ''Plazo de ejecuci'' @ [CHR 0xF3] @ ''n'' @ [CHR 0x22] @ '','' @ [CHR 0x0A] @
     ''  '' @ [CHR 0x22] @ ''conformidad'' @ [CHR 0x22] @ '': '' @ [CHR 0x22] @ ''Otorgamiento de conformidad'' @ [CHR 0x22] @ '','' @ [CHR 0x0A] @
     ''  '' @ [CHR 0x22] @ ''penalidades'' @ [CHR 0x22] @ '': '' @ [CHR 0x22] @ ''Penalidades aplicables'' @ [CHR 0x22] @ '','' @ [CHR 0x0A] @
     ''  '' @ [CHR 0x22] @ ''costo_total'' @ [CHR 0x22] @ '': '' @ [CHR 0x22] @ ''Costo total de la consultor'' @ [CHR 0xED] @ ''a'' @ [CHR 0x22, CHR 0x0A]"

definition campos_OBRA :: string where
  "campos_OBRA =
     [CHR 0x0A] @
     ''  '' @ [CHR 0x22] @ ''denominacion_contratacion'' @ [CHR 0x22] @ '': '' @ [CHR 0x22] @ ''Nombre de la obra'' @ [CHR 0x22] @ '','' @ [CHR 0x0A] @
     ''  '' @ [CHR 0x22] @ ''descripcion'' @ [CHR 0x22] @ '': '' @ [CHR 0x22] @ ''Descripci'' @ [CHR 0xF3] @ ''n de la obra'' @ [CHR 0x22] @ '','' @ [CHR 0x0A] @
     ''  '' @ [CHR 0x22] @ ''cantidad'' @ [CHR 0x22] @ '': '' @ [CHR 0x22] @ ''Cantidad o metraje'' @ [CHR 0x22] @ '','' @ [CHR 0x0A] @
     ''  '' @ [CHR 0x22] @ ''unidad_medida'' @ [CHR 0x22] @ '': '' @ [CHR 0x22] @ ''Unidad de medida'' @ [CHR 0x22] @ '','' @ [CHR 0x0A] @
     ''  '' @ [CHR 0x22] @ ''valor_unitario'' @ [CHR 0x22] @ '': '' @ [CHR 0x22] @ ''Valor unitario'' @ [CHR 0x22] @ '','' @ [CHR 0x0A] @
     ''  '' @ [CHR 0x22] @ ''importe_total'' @ [CHR 0x22] @ '': '' @ [CHR 0x22] @ ''Importe total'' @ [CHR 0x22, CHR 0x0A]"

fun campos_por_tipo :: "TdrTipo \<Rightarrow> string" where
  "campos_por_tipo BIEN = campos_BIEN"
| "campos_por_tipo SERVICIO = campos_SERVICIO"
| "campos_por_tipo CONSULTORIA_OBRA = campos_CONSULTORIA_OBRA"
| "campos_por_tipo OBRA = campos_OBRA"

definition with_context_prompt ::
  "TdrTipo \<Rightarrow> string \<Rightarrow> string option \<Rightarrow> string option \<Rightarrow> (string \<times> string) list option \<Rightarrow> string" where
  "with_context_prompt t contexto descripcion_inicial objeto_contratacion campos_parciales =
     ''Eres un experto en contrataciones p'' @ [CHR 0xFA] @ ''blicas del estado peruano.'' @ [CHR 0x0A] @
     [CHR 0x0A] @
     ''Tu tarea es generar TODOS los campos para un nuevo TDR (T'' @ [CHR 0xE9] @ ''rminos de Referencia) de tipo '' @ [CHR 0x22] @
     tipo_value t @
     [CHR 0x22] @ ''.'' @ [CHR 0x0A] @
     [CHR 0x0A] @
     ''CONTEXTO - TDRs similares como referencia:'' @ [CHR 0x0A] @
     contexto @
     [CHR 0x0A] @
     [CHR 0x0A] @
     ''INFORMACI'' @ [CHR 0xD3] @ ''N DEL NUEVO TDR:'' @ [CHR 0x0A] @
     ''- Tipo: '' @
     tipo_value t @
     [CHR 0x0A] @
     ''- Descripci'' @ [CHR 0xF3] @ ''n inicial: '' @
     str_or descripcion_inicial ''No proporcionada'' @
     [CHR 0x0A] @
     ''- Objeto de contrataci'' @ [CHR 0xF3] @ ''n: '' @
     str_or objeto_contratacion ''No proporcionado'' @
     [CHR 0x0A] @
     ''- Campos ya completados: '' @
     (case campos_parciales of
        Some (kv # kvs) \<Rightarrow> json_dumps False (JObj (map (\<lambda>(k, v). (k, JStr v)) (kv # kvs)))
      | _ \<Rightarrow> ''Ninguno'') @
     [CHR 0x0A] @
     [CHR 0x0A] @
     ''INSTRUCCIONES IMPORTANTES:'' @ [CHR 0x0A] @
     ''1. GENERA TODOS los campos listados abajo - no dejes ninguno vac'' @ [CHR 0xED] @ ''o'' @ [CHR 0x0A] @
     ''2. Bas'' @ [CHR 0xE1] @ ''ndote en los TDRs de referencia, crea contenido coherente y profesional'' @ [CHR 0x0A] @
     ''3. Usa lenguaje formal propio de documentos gubernamentales peruanos'' @ [CHR 0x0A] @
     ''4. Para campos legales (anticorrupci'' @ [CHR 0xF3] @ ''n, confidencialidad), usa textos est'' @ [CHR 0xE1] @ ''ndar del estado peruano'' @ [CHR 0x0A] @
     ''5. Adapta todo al contexto espec'' @ [CHR 0xED] @ ''fico del objeto de contrataci'' @ [CHR 0xF3] @ ''n'' @ [CHR 0x0A] @
     ''6. S'' @ [CHR 0xE9] @ '' espec'' @ [CHR 0xED] @ ''fico y detallado, evita frases gen'' @ [CHR 0xE9] @ ''ricas'' @ [CHR 0x0A] @
     [CHR 0x0A] @
     ''CAMPOS A GENERAR (todos obligatorios):'' @ [CHR 0x0A] @
     ''{'' @ [CHR 0x0A] @
     campos_por_tipo t @
     [CHR 0x0A] @
     ''}'' @ [CHR 0x0A] @
     [CHR 0x0A] @
     ''TEXTOS EST'' @ [CHR 0xC1] @ ''NDAR A USAR:'' @ [CHR 0x0A] @
     ''- Para '' @ [CHR 0x22] @ ''anticorrupcion_antisoborno'' @ [CHR 0x22] @ '': '' @ [CHR 0x22] @ ''El contratista declara y garantiza no haber ofrecido, negociado o efectuado cualquier pago, objeto de valor o cualquier d'' @ [CHR 0xE1] @ ''diva en general a funcionarios p'' @ [CHR 0xFA] @ ''blicos. Se compromete a conducirse en todo momento con honestidad, probidad, veracidad e integridad, as'' @ [CHR 0xED] @ '' como no incurrir en pr'' @ [CHR 0xE1] @ ''cticas de corrupci'' @ [CHR 0xF3] @ ''n, soborno o cualquier tipo de acto contrario a la '' @ [CHR 0xE9] @ ''tica.'' @ [CHR 0x22, CHR 0x0A] @
     ''- Para '' @ [CHR 0x22] @ ''confidencialidad'' @ [CHR 0x22] @ '': '' @ [CHR 0x22] @ ''El contratista se obliga a mantener en reserva y confidencialidad la informaci'' @ [CHR 0xF3] @ ''n a la que tenga acceso en raz'' @ [CHR 0xF3] @ ''n del servicio contratado. Queda prohibido revelar, publicar, difundir o usar esta informaci'' @ [CHR 0xF3] @ ''n sin autorizaci'' @ [CHR 0xF3] @ ''n expresa de la Entidad, durante y despu'' @ [CHR 0xE9] @ ''s de la vigencia del contrato.'' @ [CHR 0x22, CHR 0x0A] @
     [CHR 0x0A] @
     ''Responde SOLO con el JSON v'' @ [CHR 0xE1] @ ''lido, sin explicaciones ni markdown.''"

definition without_context_prompt :: "TdrTipo \<Rightarrow> string option \<Rightarrow> string option \<Rightarrow> string" where
  "without_context_prompt t descripcion_inicial objeto_contratacion =
     ''Genera campos para un TDR de tipo '' @ [CHR 0x22] @
     tipo_value t @
     [CHR 0x22] @ '' con la siguiente informaci'' @ [CHR 0xF3] @ ''n:'' @ [CHR 0x0A] @
     ''- Descripci'' @ [CHR 0xF3] @ ''n: '' @
     str_or descripcion_inicial ''No proporcionada'' @
     [CHR 0x0A] @
     ''- Objeto: '' @
     str_or objeto_contratacion ''No proporcionado'' @
     [CHR 0x0A] @
     [CHR 0x0A] @
     ''Responde con un JSON de campos t'' @ [CHR 0xED] @ ''picos para este tipo de TDR.''"

section \<open>RAGOrchestrator: RAGService.generate_fields (services/rag.py)\<close>

text \<open>
  The generator is the only collaborator whose calls are counted: every call of
  \<open>client.models.generate_content\<close> is appended to a list of calls that the functions thread
  through. The response's \<open>text\<close> can be \<open>None\<close>, on which \<open>content.strip()\<close> raises
  \<open>AttributeError\<close>.
\<close>

type_synonym gen_log = "gen_call list"

definition generate_content :: "env \<Rightarrow> gen_call \<Rightarrow> gen_log \<Rightarrow> (error + string option) \<times> gen_log" where
  "generate_content E c calls = (env_generate E c, calls @ [c])"

definition parse_response_text :: "env \<Rightarrow> string option \<Rightarrow> error + json" where
  "parse_response_text E text =
     (case text of
        None \<Rightarrow> Inl AttributeError
      | Some content \<Rightarrow> parse_json_response (env_loads E) content)"

definition generate_with_gemini ::
  "env \<Rightarrow> TdrTipo \<Rightarrow> string \<Rightarrow> string option \<Rightarrow> string option \<Rightarrow> (string \<times> string) list option
   \<Rightarrow> gen_log \<Rightarrow> (error + json) \<times> gen_log" where
  "generate_with_gemini E t contexto descripcion_inicial objeto_contratacion campos_parciales calls =
     (let prompt = with_context_prompt t contexto descripcion_inicial objeto_contratacion
                     campos_parciales;
          (response, calls') =
             generate_content E
               \<lparr>gc_model = env_model E, gc_contents = prompt, gc_temperature = 3 / 10,
                gc_max_output_tokens = 4096\<rparr> calls
      in case response of
           Inl e \<Rightarrow> (Inl e, calls')
         | Inr text \<Rightarrow> (parse_response_text E text, calls'))"

definition generate_without_context ::
  "env \<Rightarrow> TdrTipo \<Rightarrow> string option \<Rightarrow> string option \<Rightarrow> gen_log
   \<Rightarrow> (error + GenerateFieldsResponse) \<times> gen_log" where
  "generate_without_context E t descripcion_inicial objeto_contratacion calls =
     (let prompt = without_context_prompt t descripcion_inicial objeto_contratacion;
          (response, calls') =
             generate_content E
               \<lparr>gc_model = env_model E, gc_contents = prompt, gc_temperature = 5 / 10,
                gc_max_output_tokens = 4096\<rparr> calls
      in case response of
           Inl e \<Rightarrow> (Inl e, calls')
         | Inr text \<Rightarrow>
             (case parse_response_text E text of
                Inl e \<Rightarrow> (Inl e, calls')
              | Inr campos \<Rightarrow> (new_GenerateFieldsResponse True t campos [] (3 / 10), calls')))"

definition search_similar_tdrs ::
  "env \<Rightarrow> string \<Rightarrow> TdrTipo option \<Rightarrow> int \<Rightarrow> error + TdrSearchResult list" where
  "search_similar_tdrs E query t limit = search E (env_embed E query) limit t"

definition search_query ::
  "TdrTipo \<Rightarrow> string option \<Rightarrow> string option \<Rightarrow> (string \<times> string) list option \<Rightarrow> string" where
  "search_query t descripcion_inicial objeto_contratacion campos_parciales =
     (let p1 = [''Tipo: '' @ tipo_value t];
          p2 = (case descripcion_inicial of
                  None \<Rightarrow> p1
                | Some s \<Rightarrow> if s = [] then p1 else p1 @ [s]);
          p3 = (case objeto_contratacion of
                  None \<Rightarrow> p2
                | Some s \<Rightarrow> if s = [] then p2 else p2 @ [s]);
          p4 = (case campos_parciales of
                  None \<Rightarrow> p3
                | Some kvs \<Rightarrow> p3 @ map (\<lambda>(k, v). k @ '': '' @ v) kvs)
      in join [CHR 0x0A] p4)"

definition generate_fields ::
  "env \<Rightarrow> TdrTipo \<Rightarrow> string option \<Rightarrow> string option \<Rightarrow> (string \<times> string) list option \<Rightarrow> int
   \<Rightarrow> gen_log \<Rightarrow> (error + GenerateFieldsResponse) \<times> gen_log" where
  "generate_fields E t descripcion_inicial objeto_contratacion campos_parciales num_referencias calls =
     (let query = search_query t descripcion_inicial objeto_contratacion campos_parciales in
      case search_similar_tdrs E query (Some t) num_referencias of
        Inl e \<Rightarrow> (Inl e, calls)
      | Inr referencias \<Rightarrow>
          if referencias = [] then
            generate_without_context E t descripcion_inicial objeto_contratacion calls
          else
            (let contexto = build_context referencias in
             case generate_with_gemini E t contexto descripcion_inicial objeto_contratacion
                    campos_parciales calls of
               (Inl e, calls') \<Rightarrow> (Inl e, calls')
             | (Inr campos, calls') \<Rightarrow>
                 (let avg_similarity =
                        sum_list (map sr_similarity referencias) / real (length referencias)
                  in (new_GenerateFieldsResponse True t campos referencias avg_similarity,
                      calls'))))"

section \<open>Canonicalization: EmbeddingService.create_tdr_text (services/embeddings.py)\<close>







definition is_object :: "json \<Rightarrow> bool" where
  "is_object v = (case v of JObj _ \<Rightarrow> True | _ \<Rightarrow> False)"




section \<open>VectorIndex: ChromaDBClient.add_tdr and add_tdrs_batch (db/chroma.py)\<close>

record stored =
  st_id :: string
  st_embedding :: "real list"
  st_metadata :: metadata
  st_document :: string

type_synonym collection = "stored list"

fun zip_records ::
  "string list \<Rightarrow> real list list \<Rightarrow> metadata list \<Rightarrow> string list \<Rightarrow> stored list" where
  "zip_records (i # ids) (e # es) (m # ms) (d # ds) =
     \<lparr>st_id = i, st_embedding = e, st_metadata = m, st_document = d\<rparr> # zip_records ids es ms ds"
| "zip_records _ _ _ _ = []"

text \<open>
  Modelled from the spec: the batch insert of the external document store
  (\<open>collection.add\<close> of the vector database, whose code is not part of the sources). The
  spec's VectorIndex contract: it persists \<open>(id, vector, metadata, document-text)\<close>
  tuples, all four sequences have the same length, and it fails with an arity error
  otherwise. The pair returned is the outcome and the collection afterwards.
\<close>

definition collection_add ::
  "collection \<Rightarrow> string list \<Rightarrow> real list list \<Rightarrow> metadata list \<Rightarrow> string list
   \<Rightarrow> (error + unit) \<times> collection" where
  "collection_add coll ids embeddings metadatas documents =
     (if length embeddings = length ids \<and> length metadatas = length ids
         \<and> length documents = length ids
      then (Inr (), coll @ zip_records ids embeddings metadatas documents)
      else (Inl ArityMismatch, coll))"

text \<open>The two wrappers of the source pass their arguments on to the store as they are.\<close>

definition add_tdr ::
  "collection \<Rightarrow> string \<Rightarrow> real list \<Rightarrow> metadata \<Rightarrow> string \<Rightarrow> (error + unit) \<times> collection" where
  "add_tdr coll rid embedding md document = collection_add coll [rid] [embedding] [md] [document]"

definition add_tdrs_batch ::
  "collection \<Rightarrow> string list \<Rightarrow> real list list \<Rightarrow> metadata list \<Rightarrow> string list
   \<Rightarrow> (error + unit) \<times> collection" where
  "add_tdrs_batch coll ids embeddings metadatas documents =
     collection_add coll ids embeddings metadatas documents"

section \<open>Sample values\<close>

text \<open>The object \<open>{"a": 1}\<close> and its serialization, used where a concrete input is needed.\<close>

definition sample_object :: json where
  "sample_object = JObj [(''a'', JInt 1)]"

definition sample_object_text :: string where
  "sample_object_text = ''{'' @ [CHR 0x22] @ ''a'' @ [CHR 0x22] @ '': 1}''"

text \<open>
  A store that answers every query with three records (the first complete, the second
  with empty metadata, the third with a truncated \<open>fields_json\<close>), and a generator that
  answers every prompt with a fixed text.
\<close>

definition sample_results :: query_result where
  "sample_results =
     \<lparr>qr_ids = [[''a'', ''b'', ''c'']],
      qr_metadatas =
        Some [[Map.empty(''filename'' \<mapsto> SStr ''a.pdf'', ''tipo'' \<mapsto> SStr ''BIEN'',
                         ''fields_json'' \<mapsto> SStr sample_object_text),
               Map.empty,
               Map.empty(''filename'' \<mapsto> SStr ''c.pdf'', ''tipo'' \<mapsto> SStr ''OBRA'',
                         ''fields_json'' \<mapsto> SStr (take 7 sample_object_text))]],
      qr_distances = Some [[0, 1, 3]]\<rparr>"

definition sample_env :: "query_result \<Rightarrow> string \<Rightarrow> env" where
  "sample_env results text =
     \<lparr>env_embed = (\<lambda>q. [0]),
      env_query = (\<lambda>v k w. Inr results),
      env_loads = json_loads,
      env_generate = (\<lambda>c. Inr (Some text)),
      env_model = ''gemini-2.0-flash''\<rparr>"

definition sample_refs :: "TdrSearchResult list" where
  "sample_refs =
     [\<lparr>sr_id = ''a'', sr_filename = ''a.pdf'', sr_tipo = BIEN, sr_similarity = 1,
       sr_fields = [(''a'', JInt 1)]\<rparr>,
      \<lparr>sr_id = ''b'', sr_filename = [], sr_tipo = SERVICIO, sr_similarity = 1 / 2,
       sr_fields = []\<rparr>,
      \<lparr>sr_id = ''c'', sr_filename = ''c.pdf'', sr_tipo = OBRA, sr_similarity = 1 / 4,
       sr_fields = []\<rparr>]"

definition long_ref :: TdrSearchResult where
  "long_ref =
     \<lparr>sr_id = ''z'', sr_filename = ''z.pdf'', sr_tipo = OBRA, sr_similarity = 1 / 8,
      sr_fields =
        (''largo'', JStr (replicate 600 (CHR ''x''))) #
        map (\<lambda>i. (''k'' @ str_nat i, JInt (int i))) [1..<21]\<rparr>"


definition no_results :: query_result where
  "no_results = \<lparr>qr_ids = [[]], qr_metadatas = Some [[]], qr_distances = Some [[]]\<rparr>"

text \<open>A store without records and a generator that fails on every prompt.\<close>

definition failing_env :: env where
  "failing_env =
     \<lparr>env_embed = (\<lambda>q. [0]),
      env_query = (\<lambda>v k w. Inr no_results),
      env_loads = json_loads,
      env_generate = (\<lambda>c. Inl GeneratorError),
      env_model = ''gemini-2.0-flash''\<rparr>"

section \<open>Theorems\<close>

subsection \<open>Rounding to binary64\<close>

lemma pow2_pos: "0 < pow2 e"
  by (simp add: pow2_def)

lemma pow2_Suc: "pow2 (e + 1) = 2 * pow2 e"
proof (cases "0 \<le> e")
  case True
  then show ?thesis by (simp add: pow2_def nat_add_distrib)
next
  case False
  then have "nat (- e) = Suc (nat (- (e + 1)))" by simp
  then show ?thesis using False by (simp add: pow2_def)
qed

lemma pow2_pred: "pow2 (e - 1) = pow2 e / 2"
  using pow2_Suc[of "e - 1"] by simp

lemma pow2_add_nat: "pow2 (e + int k) = 2 ^ k * pow2 e"
proof (induction k)
  case 0
  then show ?case by simp
next
  case (Suc k)
  have "pow2 (e + int (Suc k)) = pow2 ((e + int k) + 1)" by (simp add: algebra_simps)
  also have "\<dots> = 2 * pow2 (e + int k)" by (rule pow2_Suc)
  finally show ?case using Suc by simp
qed

lemma pow2_mono: "a \<le> b \<Longrightarrow> pow2 a \<le> pow2 b"
proof -
  assume "a \<le> b"
  then obtain k where "b = a + int k" by (metis zle_iff_zadd)
  then show ?thesis using pow2_add_nat[of a k] pow2_pos[of a] by simp
qed

lemma pow2_0: "pow2 0 = 1"
  by (simp add: pow2_def)

lemma binade_bounds: "0 < x \<Longrightarrow> pow2 (binade x) \<le> x \<and> x < pow2 (binade x + 1)"
proof (induction x rule: binade.induct)
  case (1 x)
  show ?case
  proof (cases "x < 1")
    case True
    then have b: "binade x = binade (2 * x) - 1" using 1(3) by (subst binade.simps) simp
    have "pow2 (binade (2 * x)) \<le> 2 * x \<and> 2 * x < pow2 (binade (2 * x) + 1)"
      using 1(1)[OF _ True] 1(3) by simp
    then show ?thesis unfolding b using pow2_pred[of "binade (2 * x)"] pow2_Suc[of "binade (2 * x)"]
      by simp
  next
    case False
    show ?thesis
    proof (cases "2 \<le> x")
      case True
      then have b: "binade x = binade (x / 2) + 1" using False 1(3) by (subst binade.simps) simp
      have "pow2 (binade (x / 2)) \<le> x / 2 \<and> x / 2 < pow2 (binade (x / 2) + 1)"
        using 1(2)[OF _ False True] 1(3) by simp
      then show ?thesis unfolding b
        using pow2_Suc[of "binade (x / 2)"] pow2_Suc[of "binade (x / 2) + 1"] by simp
    next
      case b2: False
      then have "binade x = 0" using False 1(3) by (subst binade.simps) simp
      then show ?thesis using False b2 by (simp add: pow2_def)
    qed
  qed
qed

lemma binade_mono:
  assumes "0 < x" and "x \<le> y"
  shows "binade x \<le> binade y"
proof (rule ccontr)
  assume "\<not> binade x \<le> binade y"
  then have "binade y + 1 \<le> binade x" by simp
  then have "pow2 (binade y + 1) \<le> pow2 (binade x)" by (rule pow2_mono)
  moreover have "y < pow2 (binade y + 1)" using binade_bounds[of y] assms by simp
  moreover have "pow2 (binade x) \<le> x" using binade_bounds[of x] assms by simp
  ultimately show False using assms(2) by simp
qed

lemma round_half_even_int: "round_half_even (of_int k) = k"
  by (simp add: round_half_even_def)

lemma round_half_even_floor: "\<lfloor>x\<rfloor> \<le> round_half_even x \<and> round_half_even x \<le> \<lfloor>x\<rfloor> + 1"
  by (simp add: round_half_even_def Let_def)

lemma round_half_even_mono:
  assumes "a \<le> b"
  shows "round_half_even a \<le> round_half_even b"
proof (cases "\<lfloor>a\<rfloor> = \<lfloor>b\<rfloor>")
  case True
  have "a - of_int \<lfloor>a\<rfloor> \<le> b - of_int \<lfloor>b\<rfloor>" using assms True by simp
  then show ?thesis using True by (auto simp: round_half_even_def Let_def)
next
  case False
  moreover have "\<lfloor>a\<rfloor> \<le> \<lfloor>b\<rfloor>" using assms by (rule floor_mono)
  ultimately have "\<lfloor>a\<rfloor> + 1 \<le> \<lfloor>b\<rfloor>" by simp
  then show ?thesis
    using round_half_even_floor[of a] round_half_even_floor[of b] by linarith
qed

lemma round_half_even_le: "a \<le> of_int k \<Longrightarrow> round_half_even a \<le> k"
  using round_half_even_mono[of a "of_int k"] by (simp add: round_half_even_int)

lemma round_half_even_ge: "of_int k \<le> a \<Longrightarrow> k \<le> round_half_even a"
  using round_half_even_mono[of "of_int k" a] by (simp add: round_half_even_int)

lemma pow2_52: "pow2 e = 2 ^ 52 * pow2 (e - 52)"
proof -
  have h: "(e - 52) + int 52 = e" by simp
  show ?thesis using pow2_add_nat[of "e - 52" 52] unfolding h .
qed

lemma pow2_53: "pow2 (e + 1) = 2 ^ 53 * pow2 (e - 52)"
proof -
  have h: "(e - 52) + int 53 = e + 1" by simp
  show ?thesis using pow2_add_nat[of "e - 52" 53] unfolding h .
qed

lemma scaled_mono:
  assumes "(m::int) \<le> n" and "0 < (u::real)"
  shows "of_int m * u \<le> of_int n * u"
proof -
  have "real_of_int m \<le> real_of_int n" using assms(1) by (simp only: of_int_le_iff)
  then show ?thesis using assms(2) by (intro mult_right_mono) simp_all
qed

lemma round_binary64_upper:
  assumes "0 < x"
  shows "round_binary64 x \<le> pow2 (spacing_exp x + 1)"
proof -
  let ?E = "spacing_exp x"
  let ?u = "pow2 (?E - 52)"
  have u: "0 < ?u" by (rule pow2_pos)
  have "binade x + 1 \<le> ?E + 1" using assms by (simp add: spacing_exp_def)
  then have "pow2 (binade x + 1) \<le> pow2 (?E + 1)" by (rule pow2_mono)
  moreover have "x < pow2 (binade x + 1)" using binade_bounds[OF assms] by simp
  ultimately have "x \<le> 2 ^ 53 * ?u" unfolding pow2_53 by linarith
  then have "x / ?u \<le> 2 ^ 53" using u by (simp add: field_simps)
  then have "x / ?u \<le> of_int (2 ^ 53)" by simp
  then have "round_half_even (x / ?u) \<le> 2 ^ 53" by (rule round_half_even_le)
  then have "of_int (round_half_even (x / ?u)) * ?u \<le> of_int (2 ^ 53) * ?u"
    using u by (rule scaled_mono)
  also have "\<dots> = pow2 (?E + 1)" unfolding pow2_53 by simp
  finally show ?thesis unfolding round_binary64_def ulp_def .
qed

lemma round_binary64_lower:
  assumes "0 < x" and "- 1022 \<le> binade x"
  shows "pow2 (spacing_exp x) \<le> round_binary64 x"
proof -
  let ?E = "spacing_exp x"
  let ?u = "pow2 (?E - 52)"
  have E: "?E = binade x" using assms by (simp add: spacing_exp_def)
  have u: "0 < ?u" by (rule pow2_pos)
  have "pow2 ?E \<le> x" using binade_bounds[OF assms(1)] E by simp
  then have "2 ^ 52 * ?u \<le> x" using pow2_52[of ?E] by simp
  then have "2 ^ 52 \<le> x / ?u" using u by (simp add: field_simps)
  then have "of_int (2 ^ 52) \<le> x / ?u" by simp
  then have "2 ^ 52 \<le> round_half_even (x / ?u)" by (rule round_half_even_ge)
  then have "of_int (2 ^ 52) * ?u \<le> of_int (round_half_even (x / ?u)) * ?u"
    using u by (rule scaled_mono)
  moreover have "of_int (2 ^ 52) * ?u = pow2 ?E" using pow2_52[of ?E] by simp
  ultimately show ?thesis unfolding round_binary64_def ulp_def by simp
qed

lemma round_binary64_nonneg:
  assumes "0 \<le> x"
  shows "0 \<le> round_binary64 x"
proof -
  have u: "0 < ulp x" unfolding ulp_def by (rule pow2_pos)
  then have "0 \<le> x / ulp x" using assms by simp
  then have "of_int 0 \<le> x / ulp x" by simp
  then have "0 \<le> round_half_even (x / ulp x)" by (rule round_half_even_ge)
  then have "of_int 0 * ulp x \<le> of_int (round_half_even (x / ulp x)) * ulp x"
    using u by (rule scaled_mono)
  then show ?thesis unfolding round_binary64_def by simp
qed

lemma round_binary64_mono:
  assumes "0 < x" and "x \<le> y"
  shows "round_binary64 x \<le> round_binary64 y"
proof -
  have y: "0 < y" using assms by simp
  have "binade x \<le> binade y" using assms by (rule binade_mono)
  then have le: "spacing_exp x \<le> spacing_exp y" using assms by (simp add: spacing_exp_def)
  show ?thesis
  proof (cases "spacing_exp x = spacing_exp y")
    case True
    then have e: "ulp x = ulp y" by (simp add: ulp_def)
    have u: "0 < ulp y" unfolding ulp_def by (rule pow2_pos)
    then have "x / ulp y \<le> y / ulp y" using assms(2) by (simp add: divide_right_mono)
    then have "round_half_even (x / ulp y) \<le> round_half_even (y / ulp y)"
      by (rule round_half_even_mono)
    then have "of_int (round_half_even (x / ulp y)) * ulp y
                \<le> of_int (round_half_even (y / ulp y)) * ulp y"
      using u by (rule scaled_mono)
    then show ?thesis unfolding round_binary64_def e .
  next
    case False
    then have lt: "spacing_exp x + 1 \<le> spacing_exp y" using le by simp
    then have "- 1022 \<le> binade y" using y by (simp add: spacing_exp_def)
    then have "pow2 (spacing_exp y) \<le> round_binary64 y" using y round_binary64_lower by simp
    moreover have "round_binary64 x \<le> pow2 (spacing_exp x + 1)"
      using assms(1) by (rule round_binary64_upper)
    moreover have "pow2 (spacing_exp x + 1) \<le> pow2 (spacing_exp y)" using lt by (rule pow2_mono)
    ultimately show ?thesis by linarith
  qed
qed

lemma round_binary64_1: "round_binary64 1 = 1"
  by code_simp

lemma round_binary64_0: "round_binary64 0 = 0"
  by code_simp

lemma round_binary64_ge_1: "1 \<le> x \<Longrightarrow> 1 \<le> round_binary64 x"
  using round_binary64_mono[of 1 x] by (simp add: round_binary64_1)

lemma round_binary64_le_1: "0 < x \<Longrightarrow> x \<le> 1 \<Longrightarrow> round_binary64 x \<le> 1"
  using round_binary64_mono[of x 1] by (simp add: round_binary64_1)


lemma round_half_even_close: "\<bar>real_of_int (round_half_even y) - y\<bar> \<le> 1 / 2"
proof -
  have "real_of_int \<lfloor>y\<rfloor> \<le> y" and "y < real_of_int \<lfloor>y\<rfloor> + 1" by linarith+
  then show ?thesis by (auto simp: round_half_even_def Let_def)
qed

lemma round_binary64_close: "\<bar>round_binary64 x - x\<bar> \<le> ulp x / 2"
proof -
  have u: "0 < ulp x" unfolding ulp_def by (rule pow2_pos)
  have "\<bar>real_of_int (round_half_even (x / ulp x)) - x / ulp x\<bar> \<le> 1 / 2"
    by (rule round_half_even_close)
  then have "\<bar>real_of_int (round_half_even (x / ulp x)) - x / ulp x\<bar> * ulp x \<le> 1 / 2 * ulp x"
    using u by (intro mult_right_mono) simp_all
  moreover have "\<bar>real_of_int (round_half_even (x / ulp x)) - x / ulp x\<bar> * ulp x
                  = \<bar>real_of_int (round_half_even (x / ulp x)) * ulp x - x\<bar>"
  proof -
    have "\<bar>real_of_int (round_half_even (x / ulp x)) - x / ulp x\<bar> * ulp x
            = \<bar>(real_of_int (round_half_even (x / ulp x)) - x / ulp x) * ulp x\<bar>"
      using u by (simp add: abs_mult)
    also have "(real_of_int (round_half_even (x / ulp x)) - x / ulp x) * ulp x
            = real_of_int (round_half_even (x / ulp x)) * ulp x - x"
      using u by (simp add: left_diff_distrib)
    finally show ?thesis .
  qed
  ultimately show ?thesis unfolding round_binary64_def by simp
qed

lemma ulp_ge_1:
  assumes "1 \<le> x"
  shows "ulp x \<le> x / 2 ^ 52"
proof -
  have x: "0 < x" using assms by simp
  have "binade 1 \<le> binade x" using assms by (intro binade_mono) simp_all
  moreover have "binade 1 = 0" by code_simp
  ultimately have E: "spacing_exp x = binade x" using x by (simp add: spacing_exp_def)
  have "2 ^ 52 * ulp x = pow2 (spacing_exp x)" unfolding ulp_def by (rule pow2_52[symmetric])
  also have "\<dots> \<le> x" using binade_bounds[OF x] E by simp
  finally show ?thesis by (simp add: field_simps)
qed

lemma ulp_le_1:
  assumes "0 < x" and "x \<le> 1"
  shows "ulp x \<le> 1 / 2 ^ 52"
proof -
  have "binade x \<le> binade 1" using assms by (rule binade_mono)
  moreover have "binade 1 = 0" by code_simp
  ultimately have "spacing_exp x - 52 \<le> - 52" using assms by (simp add: spacing_exp_def)
  then have "pow2 (spacing_exp x - 52) \<le> pow2 (- 52)" by (rule pow2_mono)
  then show ?thesis unfolding ulp_def by (simp add: pow2_def)
qed

lemma round_half_even_nonneg: "0 \<le> y \<Longrightarrow> 0 \<le> round_half_even y"
  by (auto simp: round_half_even_def Let_def)

text \<open>The similarity transform on a distance that is not negative.\<close>

lemma similarity_of_nonneg:
  assumes "0 \<le> d"
  shows "similarity_of d = Inr (round_binary64 (1 / round_binary64 (1 + d)))"
    and "0 \<le> round_binary64 (1 / round_binary64 (1 + d))"
    and "round_binary64 (1 / round_binary64 (1 + d)) \<le> 1"
proof -
  have A: "1 \<le> round_binary64 (1 + d)" using assms by (intro round_binary64_ge_1) simp
  then show "similarity_of d = Inr (round_binary64 (1 / round_binary64 (1 + d)))"
    by (simp add: similarity_of_def Let_def)
  have q: "0 < 1 / round_binary64 (1 + d)" "1 / round_binary64 (1 + d) \<le> 1"
    using A by simp_all
  show "0 \<le> round_binary64 (1 / round_binary64 (1 + d))"
    using q(1) by (intro round_binary64_nonneg) simp
  show "round_binary64 (1 / round_binary64 (1 + d)) \<le> 1"
    using q by (rule round_binary64_le_1)
qed

lemma similarity_of_antimono:
  assumes "0 \<le> d1" and "d1 \<le> d2"
  shows "round_binary64 (1 / round_binary64 (1 + d2))
           \<le> round_binary64 (1 / round_binary64 (1 + d1))"
proof -
  have A1: "1 \<le> round_binary64 (1 + d1)" using assms by (intro round_binary64_ge_1) simp
  have "round_binary64 (1 + d1) \<le> round_binary64 (1 + d2)"
    using assms by (intro round_binary64_mono) simp_all
  then have le: "1 / round_binary64 (1 + d2) \<le> 1 / round_binary64 (1 + d1)"
    and pos: "0 < 1 / round_binary64 (1 + d2)"
    using A1 by (simp_all add: frac_le)
  from pos le show ?thesis by (rule round_binary64_mono)
qed

lemma similarity_of_close:
  assumes "0 \<le> d"
  shows "\<bar>round_binary64 (1 / round_binary64 (1 + d)) - 1 / (1 + d)\<bar> \<le> 1 / 2 ^ 52"
proof -
  define a where "a = 1 + d"
  define A where "A = round_binary64 a"
  define q where "q = 1 / A"
  have a: "1 \<le> a" using assms by (simp add: a_def)
  have A: "1 \<le> A" unfolding A_def using a by (rule round_binary64_ge_1)
  have q: "0 < q" "q \<le> 1" using A by (simp_all add: q_def)
  have "\<bar>A - a\<bar> \<le> ulp a / 2" unfolding A_def by (rule round_binary64_close)
  also have "\<dots> \<le> a / 2 ^ 53" using ulp_ge_1[OF a] by simp
  finally have e1: "\<bar>A - a\<bar> \<le> a / 2 ^ 53" .
  have "q - 1 / a = (a - A) / (a * A)" using a A by (simp add: q_def field_simps)
  then have "\<bar>q - 1 / a\<bar> = \<bar>A - a\<bar> / (a * A)" using a A by (simp add: abs_minus_commute)
  also have "\<dots> \<le> (a / 2 ^ 53) / (a * A)" using e1 a A by (intro divide_right_mono) simp_all
  also have "\<dots> = 1 / (2 ^ 53 * A)" using a by simp
  also have "\<dots> \<le> 1 / 2 ^ 53" using A by (simp add: field_simps)
  finally have e2: "\<bar>q - 1 / a\<bar> \<le> 1 / 2 ^ 53" .
  have "\<bar>round_binary64 q - q\<bar> \<le> ulp q / 2" by (rule round_binary64_close)
  also have "\<dots> \<le> 1 / 2 ^ 53" using ulp_le_1[OF q] by simp
  finally have e3: "\<bar>round_binary64 q - q\<bar> \<le> 1 / 2 ^ 53" .
  have "\<bar>round_binary64 q - 1 / a\<bar> \<le> \<bar>round_binary64 q - q\<bar> + \<bar>q - 1 / a\<bar>" by simp
  then have "\<bar>round_binary64 q - 1 / a\<bar> \<le> 1 / 2 ^ 53 + 1 / 2 ^ 53" using e2 e3 by linarith
  then show ?thesis by (simp add: q_def A_def a_def)
qed

subsection \<open>Cleaning the generator's text\<close>

lemma dropWhile_keep:
  "ys \<noteq> [] \<Longrightarrow> \<not> P (hd ys) \<Longrightarrow> dropWhile P (xs @ ys) = dropWhile P xs @ ys"
  by (induction xs) (auto simp: neq_Nil_conv)

lemma dropWhile_all:
  "\<forall>x\<in>set xs. P x \<Longrightarrow> ys \<noteq> [] \<Longrightarrow> \<not> P (hd ys) \<Longrightarrow> dropWhile P (xs @ ys) = ys"
  by (induction xs) (auto simp: neq_Nil_conv)

lemma set_lstrip: "set (lstrip xs) \<subseteq> set xs"
  by (auto simp: lstrip_def dest: set_dropWhileD)

lemma set_rstrip: "set (rstrip xs) \<subseteq> set xs"
  by (auto simp: rstrip_def dest: set_dropWhileD)

lemma strip_around:
  assumes "s \<noteq> []" and "\<not> py_isspace (hd s)" and "\<not> py_isspace (last s)"
  shows "strip (pre @ s @ post) = lstrip pre @ s @ rstrip post"
proof -
  have a: "lstrip (pre @ (s @ post)) = lstrip pre @ (s @ post)"
    unfolding lstrip_def using assms(1,2) by (intro dropWhile_keep) auto
  have "dropWhile py_isspace (rev post @ rev (lstrip pre @ s))
          = dropWhile py_isspace (rev post) @ rev (lstrip pre @ s)"
    using assms(1,3) by (intro dropWhile_keep) (auto simp: hd_rev)
  then have b: "rstrip ((lstrip pre @ s) @ post) = (lstrip pre @ s) @ rstrip post"
    by (simp add: rstrip_def)
  show ?thesis using a b by (simp add: strip_def)
qed

lemma prefix_before:
  assumes "prefix p (pre @ s @ post)" and "s \<noteq> []" and "hd s \<notin> set p"
  shows "prefix p pre"
proof -
  from assms(1) consider "prefix p pre" | us where "p = pre @ us" "prefix us (s @ post)"
    by (auto simp: prefix_append)
  then show ?thesis
  proof cases
    case 1 then show ?thesis .
  next
    case 2
    show ?thesis
    proof (cases us)
      case Nil then show ?thesis using 2 by simp
    next
      case (Cons u us')
      then have "u = hd s" using 2(2) assms(2) by (cases s) auto
      then show ?thesis using 2(1) Cons assms(3) by simp
    qed
  qed
qed

lemma suffix_after:
  assumes "suffix p (pre @ s @ post)" and "s \<noteq> []" and "last s \<notin> set p"
  shows "suffix p post"
proof -
  have "prefix (rev p) (rev post @ rev s @ rev pre)"
    using assms(1) by (simp add: suffix_to_prefix)
  moreover have "rev s \<noteq> []" using assms(2) by simp
  moreover have "hd (rev s) \<notin> set (rev p)" using assms(2,3) by (simp add: hd_rev)
  ultimately have "prefix (rev p) (rev post)" by (rule prefix_before)
  then show ?thesis by (simp add: suffix_to_prefix)
qed

lemma drop_fence_front:
  assumes "s \<noteq> []" and "hd s \<notin> set p" and "hd s \<notin> set pre" and "n = length p"
  shows "\<exists>pre'. (if startswith (pre @ s @ post) p then drop n (pre @ s @ post)
                  else pre @ s @ post) = pre' @ s @ post \<and> hd s \<notin> set pre'"
proof (cases "startswith (pre @ s @ post) p")
  case True
  then have "prefix p pre" using assms(1,2) prefix_before[of p pre s post] by (simp add: startswith_def)
  then have "length p \<le> length pre" by (rule prefix_length_le)
  then have "drop n (pre @ s @ post) = drop n pre @ s @ post" using assms(4) by simp
  moreover have "hd s \<notin> set (drop n pre)" using assms(3) by (auto dest: in_set_dropD)
  ultimately show ?thesis using True by auto
next
  case False
  then show ?thesis using assms(3) by auto
qed

lemma drop_fence_back:
  assumes "s \<noteq> []" and "last s \<notin> set p" and "last s \<notin> set post" and "n = length p"
  shows "\<exists>post'. (if endswith (pre @ s @ post) p
                   then take (length (pre @ s @ post) - n) (pre @ s @ post)
                   else pre @ s @ post) = pre @ s @ post' \<and> last s \<notin> set post'"
proof (cases "endswith (pre @ s @ post) p")
  case True
  then have "suffix p post" using assms(1,2) suffix_after[of p pre s post] by (simp add: endswith_def)
  then have le: "length p \<le> length post" by (rule suffix_length_le)
  define m where "m = length post - n"
  have len: "length (pre @ s @ post) - n = length (pre @ s @ take m post)"
    using le assms(4) by (simp add: m_def)
  have "take (length (pre @ s @ take m post)) ((pre @ s @ take m post) @ drop m post)
          = pre @ s @ take m post"
    by (rule append_eq_conv_conj[THEN iffD1, THEN conjunct1, symmetric]) (rule refl)
  then have eq: "take (length (pre @ s @ post) - n) (pre @ s @ post)
           = pre @ s @ take (length post - n) post"
    unfolding len by (simp add: m_def)
  have notin: "last s \<notin> set (take (length post - n) post)"
    using assms(3) by (auto dest: in_set_takeD)
  show ?thesis unfolding if_P[OF True] eq using notin by blast
next
  case False
  then show ?thesis using assms(3) by auto
qed

lemma clean_content_around:
  assumes s: "s \<noteq> []" "hd s = CHR ''{''" "last s = CHR ''}''"
    and "CHR ''{'' \<notin> set pre" and "CHR ''}'' \<notin> set post"
  shows "\<exists>pre' post'. clean_content (pre @ s @ post) = pre' @ s @ post'
          \<and> CHR ''{'' \<notin> set pre' \<and> CHR ''}'' \<notin> set post'"
proof -
  have sp: "\<not> py_isspace (hd s)" "\<not> py_isspace (last s)"
    using s by (simp_all add: py_isspace_def)
  define p1 where "p1 = lstrip pre"
  define q1 where "q1 = rstrip post"
  have c1: "strip (pre @ s @ post) = p1 @ s @ q1"
    using strip_around[OF s(1) sp] by (simp add: p1_def q1_def)
  have p1: "hd s \<notin> set p1" using assms(4) s set_lstrip[of pre] by (auto simp: p1_def)
  have q1: "last s \<notin> set q1" using assms(5) s set_rstrip[of post] by (auto simp: q1_def)
  define c2 where "c2 = (if startswith (p1 @ s @ q1) ''```json'' then drop 7 (p1 @ s @ q1) else p1 @ s @ q1)"
  have "hd s \<notin> set ''```json''" using s by simp
  from drop_fence_front[OF s(1) this p1, of 7 q1]
  obtain p2 where c2: "c2 = p2 @ s @ q1" and p2: "hd s \<notin> set p2"
    unfolding c2_def by auto
  define c3 where "c3 = (if startswith c2 ''```'' then drop 3 c2 else c2)"
  have "hd s \<notin> set ''```''" using s by simp
  from drop_fence_front[OF s(1) this p2, of 3 q1]
  obtain p3 where c3: "c3 = p3 @ s @ q1" and p3: "hd s \<notin> set p3"
    unfolding c3_def c2 by auto
  define c4 where "c4 = (if endswith c3 ''```'' then take (length c3 - 3) c3 else c3)"
  have "last s \<notin> set ''```''" using s by simp
  from drop_fence_back[OF s(1) this q1, of 3 p3]
  obtain q4 where c4: "c4 = p3 @ s @ q4" and q4: "last s \<notin> set q4"
    unfolding c4_def c3 by auto
  have "clean_content (pre @ s @ post) = strip c4"
    by (simp only: clean_content_def Let_def c1 c2_def[symmetric] c3_def[symmetric] c4_def[symmetric])
  also have "\<dots> = lstrip p3 @ s @ rstrip q4"
    unfolding c4 by (rule strip_around[OF s(1) sp])
  finally have "clean_content (pre @ s @ post) = lstrip p3 @ s @ rstrip q4" .
  moreover have "CHR ''{'' \<notin> set (lstrip p3)" using p3 s set_lstrip[of p3] by auto
  moreover have "CHR ''}'' \<notin> set (rstrip q4)" using q4 s set_rstrip[of q4] by auto
  ultimately show ?thesis by blast
qed

lemma re_search_braces_around:
  assumes s: "s \<noteq> []" "hd s = CHR ''{''" "last s = CHR ''}''"
    and "CHR ''{'' \<notin> set pre" and "CHR ''}'' \<notin> set post"
  shows "re_search_braces (pre @ s @ post) = Some s"
proof -
  have a: "dropWhile (\<lambda>c. c \<noteq> CHR ''{'') (pre @ (s @ post)) = s @ post"
    using assms by (intro dropWhile_all) auto
  have "dropWhile (\<lambda>c. c \<noteq> CHR ''}'') (rev post @ rev s) = rev s"
    using assms by (intro dropWhile_all) (auto simp: hd_rev)
  then have b: "rev (dropWhile (\<lambda>c. c \<noteq> CHR ''}'') (rev (s @ post))) = s" by simp
  show ?thesis unfolding re_search_braces_def Let_def a b using s(1) by simp
qed

lemma clean_content_plain:
  assumes s: "s \<noteq> []" "hd s = CHR ''{''" "last s = CHR ''}''"
  shows "clean_content s = s"
proof -
  have sp: "\<not> py_isspace (hd s)" "\<not> py_isspace (last s)"
    using s by (simp_all add: py_isspace_def)
  have s1: "strip s = s"
    using strip_around[OF s(1) sp, of "[]" "[]"] by (simp add: lstrip_def rstrip_def)
  have n1: "\<not> startswith s ''```json''"
    using prefix_before[of "''```json''" "[]" s "[]"] s by (auto simp: startswith_def)
  have n2: "\<not> startswith s ''```''"
    using prefix_before[of "''```''" "[]" s "[]"] s by (auto simp: startswith_def)
  have n3: "\<not> endswith s ''```''"
    using suffix_after[of "''```''" "[]" s "[]"] s by (auto simp: endswith_def)
  show ?thesis by (simp only: clean_content_def Let_def s1 n1 n2 n3 if_False)
qed

lemma clean_content_fenced:
  assumes s: "s \<noteq> []" "hd s = CHR ''{''" "last s = CHR ''}''"
    and tag: "tag = ''json'' \<or> tag = []"
  shows "clean_content (''```'' @ tag @ [CHR 0x0A] @ s @ [CHR 0x0A] @ ''```'') = s"
proof -
  have sp: "\<not> py_isspace (hd s)" "\<not> py_isspace (last s)"
    using s by (simp_all add: py_isspace_def)
  let ?inner = "[CHR 0x0A] @ s @ [CHR 0x0A] @ ''```''"
  let ?c = "''```'' @ tag @ ?inner"
  have ne: "\<not> py_isspace (CHR 0x60)" by (simp add: py_isspace_def)
  have "rstrip ?c = ?c"
    using tag by (auto simp: rstrip_def ne)
  moreover have "lstrip ?c = ?c" by (simp add: lstrip_def ne)
  ultimately have s1: "strip ?c = ?c" by (simp add: strip_def)
  have front: "(let c2 = (if startswith ?c ''```json'' then drop 7 ?c else ?c)
                in if startswith c2 ''```'' then drop 3 c2 else c2) = ?inner"
    using tag s by (cases s) (auto simp: startswith_def Let_def)
  have y3: "endswith ?inner ''```''"
    by (simp add: endswith_def suffix_def)
  have t3: "take (length ?inner - 3) ?inner = [CHR 0x0A] @ s @ [CHR 0x0A]" by simp
  have s4: "strip ([CHR 0x0A] @ s @ [CHR 0x0A]) = s"
    using strip_around[OF s(1) sp, of "[CHR 0x0A]" "[CHR 0x0A]"]
    by (simp add: lstrip_def rstrip_def py_isspace_def)
  have "clean_content ?c =
          (let c3 = (let c2 = (if startswith ?c ''```json'' then drop 7 ?c else ?c)
                     in if startswith c2 ''```'' then drop 3 c2 else c2);
               c4 = (if endswith c3 ''```'' then take (length c3 - 3) c3 else c3)
           in strip c4)"
    by (simp only: clean_content_def Let_def s1)
  also have "\<dots> = s"
    unfolding front by (simp only: Let_def y3 t3 s4 if_True)
  finally show ?thesis .
qed


lemma clean_content_id:
  assumes s: "s \<noteq> []" "\<not> py_isspace (hd s)" "\<not> py_isspace (last s)"
    and "hd s \<noteq> CHR 0x60" and "last s \<noteq> CHR 0x60"
  shows "clean_content s = s"
proof -
  have s1: "strip s = s"
    using strip_around[OF s, of "[]" "[]"] by (simp add: lstrip_def rstrip_def)
  have n1: "\<not> startswith s ''```json''"
    using prefix_before[of "''```json''" "[]" s "[]"] s(1) assms(4)
    by (cases s) (auto simp: startswith_def)
  have n2: "\<not> startswith s ''```''"
    using prefix_before[of "''```''" "[]" s "[]"] s(1) assms(4) by (auto simp: startswith_def)
  have n3: "\<not> endswith s ''```''"
    using suffix_after[of "''```''" "[]" s "[]"] s(1) assms(5) by (auto simp: endswith_def)
  show ?thesis by (simp only: clean_content_def Let_def s1 n1 n2 n3 if_False)
qed

lemma json_loads_long_integer:
  assumes "list_all is_digit ds" and "4300 \<le> length ds"
  shows "json_loads (CHR ''1'' # ds @ ''x'') = Inl ValueError"
proof -
  have tw: "takeWhile is_digit (ds @ ''x'') = ds"
    using assms(1) by (simp add: list_all_iff is_digit_def)
  have num: "scan_number (CHR ''1'' # ds @ ''x'') = Some (Inl ValueError)"
    using assms(2) by (simp add: scan_number_def Let_def tw is_digit_def)
  have once: "scan_once (Suc n) (CHR ''1'' # ds @ ''x'') = Inl ValueError" for n
    by (simp add: num startswith_def)
  show ?thesis
    by (simp add: json_loads_def skip_ws_def json_ws_def once del: scan_once.simps)
qed

lemma parse_long_integer:
  assumes "list_all is_digit ds" and "4300 \<le> length ds"
  shows "parse_json_response json_loads (CHR ''1'' # ds @ ''x'') = Inl ValueError"
proof -
  have l: "json_loads (CHR ''1'' # ds @ ''x'') = Inl ValueError"
    using assms by (rule json_loads_long_integer)
  have c: "clean_content (CHR ''1'' # ds @ ''x'') = CHR ''1'' # ds @ ''x''"
    by (rule clean_content_id) (simp_all add: py_isspace_def)
  show ?thesis by (simp add: parse_json_response_def c l)
qed

lemma parse_object_text:
  assumes "s \<noteq> []" and "hd s = CHR ''{''" and "last s = CHR ''}''" and "loads s = Inr X"
  shows "parse_json_response loads s = Inr X
       \<and> parse_json_response loads (''```json'' @ [CHR 0x0A] @ s @ [CHR 0x0A] @ ''```'') = Inr X
       \<and> parse_json_response loads (''```'' @ [CHR 0x0A] @ s @ [CHR 0x0A] @ ''```'') = Inr X
       \<and> (\<forall>pre post.
             CHR ''{'' \<notin> set pre \<and> CHR ''}'' \<notin> set post
             \<and> loads (clean_content (pre @ s @ post)) = Inl JSONDecodeError
             \<longrightarrow> parse_json_response loads (pre @ s @ post) = Inr X)"
proof -
  note s = assms(1-3)
  have plain: "parse_json_response loads s = Inr X"
    by (simp add: parse_json_response_def clean_content_plain[OF s] assms(4))
  have f1: "parse_json_response loads (''```json'' @ [CHR 0x0A] @ s @ [CHR 0x0A] @ ''```'') = Inr X"
    using clean_content_fenced[OF s, of "''json''"]
    by (simp add: parse_json_response_def assms(4))
  have f2: "parse_json_response loads (''```'' @ [CHR 0x0A] @ s @ [CHR 0x0A] @ ''```'') = Inr X"
    using clean_content_fenced[OF s, of "[]"]
    by (simp add: parse_json_response_def assms(4))
  have prose: "parse_json_response loads (pre @ s @ post) = Inr X"
    if h: "CHR ''{'' \<notin> set pre" "CHR ''}'' \<notin> set post"
          "loads (clean_content (pre @ s @ post)) = Inl JSONDecodeError" for pre post
  proof -
    obtain pre' post' where c: "clean_content (pre @ s @ post) = pre' @ s @ post'"
      and n: "CHR ''{'' \<notin> set pre'" "CHR ''}'' \<notin> set post'"
      using clean_content_around[OF s h(1,2)] by blast
    have m: "re_search_braces (clean_content (pre @ s @ post)) = Some s"
      unfolding c by (rule re_search_braces_around[OF s n])
    show ?thesis
      by (simp add: parse_json_response_def Let_def h(3) m assms(4))
  qed
  show ?thesis using plain f1 f2 prose by blast
qed

lemma parse_json_response_unparseable:
  assumes "loads (clean_content g) = Inl JSONDecodeError"
    and "\<forall>m. re_search_braces (clean_content g) = Some m \<longrightarrow> loads m = Inl JSONDecodeError"
  shows "parse_json_response loads g = Inr (error_payload (clean_content g))"
  using assms
  by (cases "re_search_braces (clean_content g)") (simp_all add: parse_json_response_def Let_def)

lemma json_dumps_object_shape:
  "json_dumps ea (JObj kvs) \<noteq> [] \<and> hd (json_dumps ea (JObj kvs)) = CHR ''{''
   \<and> last (json_dumps ea (JObj kvs)) = CHR ''}''"
  by simp

text \<open>
  C10. There is a text that is valid JSON but not an object, the serialization of the
  array \<open>[1, 2]\<close>, on which the response parser returns the decoded array unchanged:
  the result is not a mapping.
\<close>

theorem parse_json_response_non_object:
  "json_dumps True (JArr [JInt 1, JInt 2]) = ''[1, 2]''
   \<and> json_loads ''[1, 2]'' = Inr (JArr [JInt 1, JInt 2])
   \<and> parse_json_response json_loads ''[1, 2]'' = Inr (JArr [JInt 1, JInt 2])
   \<and> \<not> is_object (JArr [JInt 1, JInt 2])"
  by code_simp

text \<open>
  C4, as amended. Let \<open>X\<close> be an object whose serialization the decoder maps back to
  \<open>X\<close>. The parser returns \<open>X\<close> on the serialization, on the serialization in a fenced
  block with or without the \<open>json\<close> tag, and on the serialization between a leading text
  without \<open>{\<close> and a trailing text without \<open>}\<close> when the decoder rejects, with
  \<open>JSONDecodeError\<close>, what is left of the whole after cleaning (trimmed, fences
  removed). On a text for which the decoder rejects, with \<open>JSONDecodeError\<close>, both the
  cleaned text and its brace span if it has one, the parser returns the mapping with the
  keys \<open>error\<close> and \<open>raw\<close>, where \<open>raw\<close> is the first 500 characters of the cleaned
  text.
\<close>

theorem parse_json_response_shapes:
  assumes "loads (json_dumps ea (JObj kvs)) = Inr (JObj kvs)"
  shows "parse_json_response loads (json_dumps ea (JObj kvs)) = Inr (JObj kvs)
       \<and> parse_json_response loads
            (''```json'' @ [CHR 0x0A] @ json_dumps ea (JObj kvs) @ [CHR 0x0A] @ ''```'')
           = Inr (JObj kvs)
       \<and> parse_json_response loads
            (''```'' @ [CHR 0x0A] @ json_dumps ea (JObj kvs) @ [CHR 0x0A] @ ''```'')
           = Inr (JObj kvs)
       \<and> (\<forall>pre post.
             CHR ''{'' \<notin> set pre \<and> CHR ''}'' \<notin> set post
             \<and> loads (clean_content (pre @ json_dumps ea (JObj kvs) @ post)) = Inl JSONDecodeError
             \<longrightarrow> parse_json_response loads (pre @ json_dumps ea (JObj kvs) @ post)
                   = Inr (JObj kvs))
       \<and> (\<forall>g.
             loads (clean_content g) = Inl JSONDecodeError
             \<and> (\<forall>m. re_search_braces (clean_content g) = Some m \<longrightarrow> loads m = Inl JSONDecodeError)
             \<longrightarrow> parse_json_response loads g =
                   Inr (JObj [(''error'', JStr ''No se pudo parsear la respuesta''),
                              (''raw'', JStr (take 500 (clean_content g)))]))"
proof -
  define s where "s = json_dumps ea (JObj kvs)"
  have shape: "s \<noteq> []" "hd s = CHR ''{''" "last s = CHR ''}''"
    using json_dumps_object_shape[of ea kvs] by (simp_all add: s_def)
  have l: "loads s = Inr (JObj kvs)" using assms by (simp add: s_def)
  note O = parse_object_text[where s = s and loads = loads and X = "JObj kvs", OF shape l]
  have garbage: "parse_json_response loads g =
        Inr (JObj [(''error'', JStr ''No se pudo parsear la respuesta''),
                   (''raw'', JStr (take 500 (clean_content g)))])"
    if "loads (clean_content g) = Inl JSONDecodeError"
       "\<forall>m. re_search_braces (clean_content g) = Some m \<longrightarrow> loads m = Inl JSONDecodeError" for g
    using parse_json_response_unparseable[OF that] by (simp add: error_payload_def)
  show ?thesis using O garbage unfolding s_def by blast
qed

theorem parse_json_response_shapes_witness:
  "parse_json_response json_loads sample_object_text = Inr sample_object
   \<and> parse_json_response json_loads
        (''```json'' @ [CHR 0x0A] @ sample_object_text @ [CHR 0x0A] @ ''```'') = Inr sample_object
   \<and> parse_json_response json_loads
        (''```'' @ [CHR 0x0A] @ sample_object_text @ [CHR 0x0A] @ ''```'') = Inr sample_object
   \<and> parse_json_response json_loads (''Aqui esta: '' @ sample_object_text @ '' Gracias.'')
        = Inr sample_object
   \<and> parse_json_response json_loads ''  no puedo '' =
        Inr (JObj [(''error'', JStr ''No se pudo parsear la respuesta''),
                   (''raw'', JStr ''no puedo'')])"
proof -
  have d: "json_dumps True (JObj [(''a'', JInt 1)]) = sample_object_text" by code_simp
  have o: "sample_object = JObj [(''a'', JInt 1)]" by (simp add: sample_object_def)
  have h: "json_loads (json_dumps True (JObj [(''a'', JInt 1)])) = Inr (JObj [(''a'', JInt 1)])"
    by code_simp
  note T = parse_json_response_shapes[where loads = json_loads and ea = True
      and kvs = "[(''a'', JInt 1)]", OF h, unfolded d, folded o]
  have p1: "CHR ''{'' \<notin> set ''Aqui esta: ''" and p2: "CHR ''}'' \<notin> set '' Gracias.''"
    by simp_all
  have p3: "json_loads (clean_content (''Aqui esta: '' @ sample_object_text @ '' Gracias.''))
              = Inl JSONDecodeError" by code_simp
  have g1: "json_loads (clean_content ''  no puedo '') = Inl JSONDecodeError" by code_simp
  have g2: "re_search_braces (clean_content ''  no puedo '') = None" by code_simp
  have g3: "take 500 (clean_content ''  no puedo '') = ''no puedo''" by code_simp
  have prose: "parse_json_response json_loads (''Aqui esta: '' @ sample_object_text @ '' Gracias.'')
                 = Inr sample_object"
    using T p1 p2 p3 by blast
  have garbage: "parse_json_response json_loads ''  no puedo '' =
        Inr (JObj [(''error'', JStr ''No se pudo parsear la respuesta''),
                   (''raw'', JStr (take 500 (clean_content ''  no puedo '')))])"
    using T g1 g2 by simp
  show ?thesis using T prose garbage unfolding g3 by blast
qed

text \<open>
  C4 as stated fails three times. The serialization of \<open>{"a": 1}\<close> after a leading
  text that itself holds braces is not recovered: the brace span starts in the leading
  text. On a text that is not JSON the \<open>raw\<close> entry is cut from the cleaned text, not
  from the input: the input \<open>" hola"\<close> gives \<open>"hola"\<close>. And the parser does raise on
  some texts that are not JSON: on 4301 digits followed by \<open>x\<close> the decoder raises
  \<open>ValueError\<close>, which is not caught.
\<close>

theorem parse_json_response_counterexample:
  "json_dumps True sample_object = sample_object_text
   \<and> json_loads sample_object_text = Inr sample_object
   \<and> parse_json_response json_loads (''Usa {llaves} asi: '' @ sample_object_text)
        \<noteq> Inr sample_object
   \<and> parse_json_response json_loads '' hola'' =
        Inr (JObj [(''error'', JStr ''No se pudo parsear la respuesta''), (''raw'', JStr ''hola'')])
   \<and> take 500 '' hola'' \<noteq> ''hola''
   \<and> parse_json_response json_loads (replicate 4301 (CHR ''1'') @ ''x'') = Inl ValueError"
proof -
  have a: "json_dumps True sample_object = sample_object_text
   \<and> json_loads sample_object_text = Inr sample_object
   \<and> parse_json_response json_loads (''Usa {llaves} asi: '' @ sample_object_text)
        \<noteq> Inr sample_object
   \<and> parse_json_response json_loads '' hola'' =
        Inr (JObj [(''error'', JStr ''No se pudo parsear la respuesta''), (''raw'', JStr ''hola'')])
   \<and> take 500 '' hola'' \<noteq> ''hola''"
    by code_simp
  let ?ds = "replicate 4300 (CHR ''1'')"
  have r: "replicate 4301 (CHR ''1'') @ ''x'' = CHR ''1'' # ?ds @ ''x''"
    by (simp only: replicate_Suc[symmetric] append_Cons[symmetric]) simp
  have d: "list_all is_digit ?ds" by (simp add: list_all_iff is_digit_def)
  have b: "parse_json_response json_loads (replicate 4301 (CHR ''1'') @ ''x'') = Inl ValueError"
    unfolding r by (rule parse_long_integer[OF d]) simp
  show ?thesis using a b by simp
qed

subsection \<open>The orchestrator\<close>

lemma snd_generate_with_gemini:
  "snd (generate_with_gemini E t ctx d ob cp calls) =
     calls @ [\<lparr>gc_model = env_model E, gc_contents = with_context_prompt t ctx d ob cp,
               gc_temperature = 3 / 10, gc_max_output_tokens = 4096\<rparr>]"
  by (simp add: generate_with_gemini_def generate_content_def Let_def split: sum.splits)

lemma fst_generate_with_gemini:
  "fst (generate_with_gemini E t ctx d ob cp calls) =
     (case env_generate E \<lparr>gc_model = env_model E, gc_contents = with_context_prompt t ctx d ob cp,
               gc_temperature = 3 / 10, gc_max_output_tokens = 4096\<rparr> of
        Inl e \<Rightarrow> Inl e
      | Inr reply \<Rightarrow> parse_response_text E reply)"
  by (simp add: generate_with_gemini_def generate_content_def Let_def split: sum.splits)

lemma snd_generate_without_context:
  "snd (generate_without_context E t d ob calls) =
     calls @ [\<lparr>gc_model = env_model E, gc_contents = without_context_prompt t d ob,
               gc_temperature = 5 / 10, gc_max_output_tokens = 4096\<rparr>]"
  by (simp add: generate_without_context_def generate_content_def Let_def split: sum.splits)

lemma fst_generate_without_context:
  "fst (generate_without_context E t d ob calls) =
     (case env_generate E \<lparr>gc_model = env_model E, gc_contents = without_context_prompt t d ob,
               gc_temperature = 5 / 10, gc_max_output_tokens = 4096\<rparr> of
        Inl e \<Rightarrow> Inl e
      | Inr reply \<Rightarrow>
          (case parse_response_text E reply of
             Inl e \<Rightarrow> Inl e
           | Inr campos \<Rightarrow> new_GenerateFieldsResponse True t campos [] (3 / 10)))"
  by (simp add: generate_without_context_def generate_content_def Let_def split: sum.splits)

lemma without_context_prompt_shorter:
  "length (without_context_prompt t d ob) < length (with_context_prompt t ctx d ob cp)"
  by (simp add: without_context_prompt_def with_context_prompt_def)

lemma generate_fields_empty:
  assumes "search_similar_tdrs E (search_query t d ob cp) (Some t) n = Inr []"
  shows "generate_fields E t d ob cp n calls = generate_without_context E t d ob calls"
  using assms by (simp add: generate_fields_def)

lemma generate_fields_nonempty:
  assumes "search_similar_tdrs E (search_query t d ob cp) (Some t) n = Inr refs" and "refs \<noteq> []"
  shows "snd (generate_fields E t d ob cp n calls)
           = snd (generate_with_gemini E t (build_context refs) d ob cp calls)"
    and "fst (generate_fields E t d ob cp n calls)
           = (case fst (generate_with_gemini E t (build_context refs) d ob cp calls) of
                Inl e \<Rightarrow> Inl e
              | Inr campos \<Rightarrow>
                  new_GenerateFieldsResponse True t campos refs
                    (sum_list (map sr_similarity refs) / real (length refs)))"
  using assms
  by (auto simp: generate_fields_def Let_def split: prod.splits sum.splits)

lemma new_response_fields:
  assumes "new_GenerateFieldsResponse ok t campos refs c = Inr resp"
  shows "gr_success resp = ok \<and> gr_tipo resp = t \<and> gr_referencias_usadas resp = refs
         \<and> gr_confidence resp = c \<and> campos = JObj (gr_campos_sugeridos resp)"
  using assms by (auto simp: new_GenerateFieldsResponse_def split: json.splits)

text \<open>
  C1, as amended. When the similarity search returns the empty list, \<open>generate_fields\<close>
  takes the path without context: exactly one call of the generator is added to the log,
  whatever its outcome, with temperature \<open>0.5\<close> and the short prompt written out below,
  which is shorter than the prompt with context. When the generator answers with a text
  from which the parser recovers a mapping, the result is returned with that mapping,
  confidence \<open>0.3\<close> and no references; and every result returned on this path has
  confidence \<open>0.3\<close> and an empty \<open>referencias_usadas\<close>.
\<close>

theorem generate_fields_no_context:
  assumes "search_similar_tdrs E (search_query t d ob cp) (Some t) n = Inr []"
    and "prompt =
           ''Genera campos para un TDR de tipo '' @ [CHR 0x22] @ tipo_value t @ [CHR 0x22] @
           '' con la siguiente informaci'' @ [CHR 0xF3] @ ''n:'' @ [CHR 0x0A] @
           ''- Descripci'' @ [CHR 0xF3] @ ''n: '' @
           (case d of None \<Rightarrow> ''No proporcionada''
            | Some x \<Rightarrow> if x = [] then ''No proporcionada'' else x) @ [CHR 0x0A] @
           ''- Objeto: '' @
           (case ob of None \<Rightarrow> ''No proporcionado''
            | Some x \<Rightarrow> if x = [] then ''No proporcionado'' else x) @ [CHR 0x0A] @
           [CHR 0x0A] @
           ''Responde con un JSON de campos t'' @ [CHR 0xED] @ ''picos para este tipo de TDR.''"
  shows "snd (generate_fields E t d ob cp n calls) =
           calls @ [\<lparr>gc_model = env_model E, gc_contents = prompt,
                     gc_temperature = 5 / 10, gc_max_output_tokens = 4096\<rparr>]
       \<and> (\<forall>reply campos.
             env_generate E \<lparr>gc_model = env_model E, gc_contents = prompt,
                              gc_temperature = 5 / 10, gc_max_output_tokens = 4096\<rparr> = Inr (Some reply)
             \<and> parse_json_response (env_loads E) reply = Inr (JObj campos)
             \<longrightarrow> fst (generate_fields E t d ob cp n calls) =
                   Inr \<lparr>gr_success = True, gr_tipo = t, gr_campos_sugeridos = campos,
                        gr_referencias_usadas = [], gr_confidence = 3 / 10\<rparr>)
       \<and> (\<forall>resp. fst (generate_fields E t d ob cp n calls) = Inr resp
             \<longrightarrow> gr_success resp \<and> gr_confidence resp = 3 / 10 \<and> gr_referencias_usadas resp = [])
       \<and> (\<forall>ctx. length prompt < length (with_context_prompt t ctx d ob cp))"
proof -
  have p: "without_context_prompt t d ob = prompt"
    unfolding assms(2) by (simp add: without_context_prompt_def str_or_def split: option.splits)
  note eq = generate_fields_empty[OF assms(1), of calls]
  have calls: "snd (generate_fields E t d ob cp n calls) =
           calls @ [\<lparr>gc_model = env_model E, gc_contents = prompt,
                     gc_temperature = 5 / 10, gc_max_output_tokens = 4096\<rparr>]"
    unfolding eq p[symmetric] by (rule snd_generate_without_context)
  have answer: "fst (generate_fields E t d ob cp n calls) =
                   Inr \<lparr>gr_success = True, gr_tipo = t, gr_campos_sugeridos = campos,
                        gr_referencias_usadas = [], gr_confidence = 3 / 10\<rparr>"
    if "env_generate E \<lparr>gc_model = env_model E, gc_contents = prompt,
                              gc_temperature = 5 / 10, gc_max_output_tokens = 4096\<rparr> = Inr (Some reply)"
       "parse_json_response (env_loads E) reply = Inr (JObj campos)" for reply campos
    unfolding eq fst_generate_without_context p using that
    by (simp add: parse_response_text_def new_GenerateFieldsResponse_def)
  have every: "gr_success resp \<and> gr_confidence resp = 3 / 10 \<and> gr_referencias_usadas resp = []"
    if "fst (generate_fields E t d ob cp n calls) = Inr resp" for resp
    using that unfolding eq fst_generate_without_context
    by (auto split: sum.splits dest!: new_response_fields)
  have shorter: "length prompt < length (with_context_prompt t ctx d ob cp)" for ctx
    unfolding p[symmetric] by (rule without_context_prompt_shorter)
  show ?thesis using calls answer every shorter by blast
qed

theorem generate_fields_no_context_witness:
  "snd (generate_fields (sample_env no_results sample_object_text) BIEN None (Some ''laptops'')
          None 5 []) =
     [\<lparr>gc_model = ''gemini-2.0-flash'',
       gc_contents =
         ''Genera campos para un TDR de tipo '' @ [CHR 0x22] @ ''BIEN'' @ [CHR 0x22] @
         '' con la siguiente informaci'' @ [CHR 0xF3] @ ''n:'' @ [CHR 0x0A] @
         ''- Descripci'' @ [CHR 0xF3] @ ''n: No proporcionada'' @ [CHR 0x0A] @
         ''- Objeto: laptops'' @ [CHR 0x0A] @ [CHR 0x0A] @
         ''Responde con un JSON de campos t'' @ [CHR 0xED] @ ''picos para este tipo de TDR.'',
       gc_temperature = 5 / 10, gc_max_output_tokens = 4096\<rparr>]
   \<and> fst (generate_fields (sample_env no_results sample_object_text) BIEN None (Some ''laptops'')
          None 5 []) =
     Inr \<lparr>gr_success = True, gr_tipo = BIEN, gr_campos_sugeridos = [(''a'', JInt 1)],
          gr_referencias_usadas = [], gr_confidence = 3 / 10\<rparr>"
proof -
  let ?E = "sample_env no_results sample_object_text"
  let ?prompt =
    "''Genera campos para un TDR de tipo '' @ [CHR 0x22] @ ''BIEN'' @ [CHR 0x22] @
     '' con la siguiente informaci'' @ [CHR 0xF3] @ ''n:'' @ [CHR 0x0A] @
     ''- Descripci'' @ [CHR 0xF3] @ ''n: No proporcionada'' @ [CHR 0x0A] @
     ''- Objeto: laptops'' @ [CHR 0x0A] @ [CHR 0x0A] @
     ''Responde con un JSON de campos t'' @ [CHR 0xED] @ ''picos para este tipo de TDR.''"
  have h: "search_similar_tdrs ?E (search_query BIEN None (Some ''laptops'') None) (Some BIEN) 5
             = Inr []"
    by code_simp
  have q: "?prompt =
           ''Genera campos para un TDR de tipo '' @ [CHR 0x22] @ tipo_value BIEN @ [CHR 0x22] @
           '' con la siguiente informaci'' @ [CHR 0xF3] @ ''n:'' @ [CHR 0x0A] @
           ''- Descripci'' @ [CHR 0xF3] @ ''n: '' @
           (case (None :: string option) of None \<Rightarrow> ''No proporcionada''
            | Some x \<Rightarrow> if x = [] then ''No proporcionada'' else x) @ [CHR 0x0A] @
           ''- Objeto: '' @
           (case Some ''laptops'' of None \<Rightarrow> ''No proporcionado''
            | Some x \<Rightarrow> if x = [] then ''No proporcionado'' else x) @ [CHR 0x0A] @
           [CHR 0x0A] @
           ''Responde con un JSON de campos t'' @ [CHR 0xED] @ ''picos para este tipo de TDR.''"
    by simp
  note T = generate_fields_no_context[OF h q, of "[]"]
  have m: "env_model ?E = ''gemini-2.0-flash''" by (simp add: sample_env_def)
  have g: "env_generate ?E c = Inr (Some sample_object_text)" for c
    by (simp add: sample_env_def)
  have l: "env_loads ?E = json_loads" by (simp add: sample_env_def)
  have p: "parse_json_response (env_loads ?E) sample_object_text = Inr (JObj [(''a'', JInt 1)])"
    unfolding l by code_simp
  have calls: "snd (generate_fields ?E BIEN None (Some ''laptops'') None 5 []) =
     [\<lparr>gc_model = ''gemini-2.0-flash'', gc_contents = ?prompt,
       gc_temperature = 5 / 10, gc_max_output_tokens = 4096\<rparr>]"
    using T unfolding m by simp
  have res: "fst (generate_fields ?E BIEN None (Some ''laptops'') None 5 []) =
     Inr \<lparr>gr_success = True, gr_tipo = BIEN, gr_campos_sugeridos = [(''a'', JInt 1)],
          gr_referencias_usadas = [], gr_confidence = 3 / 10\<rparr>"
    using T g p by blast
  show ?thesis using calls res by (rule conjI)
qed

text \<open>
  C1 as stated fails where no result comes back. With no references, a generator that
  answers \<open>[1, 2]\<close> makes the response constructor reject the list
  (\<open>ValidationError\<close>), and a generator that fails makes the call fail with the
  generator's error: in both cases \<open>generate_fields\<close> raises and returns no result.
\<close>

theorem generate_fields_no_context_counterexample:
  "search_similar_tdrs (sample_env no_results ''[1, 2]'') (search_query BIEN None None None)
     (Some BIEN) 5 = Inr []
   \<and> fst (generate_fields (sample_env no_results ''[1, 2]'') BIEN None None None 5 [])
       = Inl ValidationError
   \<and> search_similar_tdrs failing_env (search_query BIEN None None None) (Some BIEN) 5 = Inr []
   \<and> fst (generate_fields failing_env BIEN None None None 5 []) = Inl GeneratorError"
  by code_simp

text \<open>
  C5. On the path with context (a non-empty list of references), exactly one call of
  the generator is added to the log, whatever its outcome; and when every parsing stage
  fails on the generator's text, \<open>generate_fields\<close> still returns a result with \<open>success\<close>
  true whose \<open>campos_sugeridos\<close> is the payload with the keys \<open>error\<close> and \<open>raw\<close>.
\<close>

theorem generate_fields_with_context:
  assumes "search_similar_tdrs E (search_query t d ob cp) (Some t) n = Inr refs" and "refs \<noteq> []"
  shows "snd (generate_fields E t d ob cp n calls) =
           calls @ [\<lparr>gc_model = env_model E,
                     gc_contents = with_context_prompt t (build_context refs) d ob cp,
                     gc_temperature = 3 / 10, gc_max_output_tokens = 4096\<rparr>]
       \<and> (\<forall>reply.
             env_generate E \<lparr>gc_model = env_model E,
                              gc_contents = with_context_prompt t (build_context refs) d ob cp,
                              gc_temperature = 3 / 10, gc_max_output_tokens = 4096\<rparr> = Inr (Some reply)
             \<and> env_loads E (clean_content reply) = Inl JSONDecodeError
             \<and> (\<forall>m. re_search_braces (clean_content reply) = Some m
                     \<longrightarrow> env_loads E m = Inl JSONDecodeError)
             \<longrightarrow> fst (generate_fields E t d ob cp n calls) =
                   Inr \<lparr>gr_success = True, gr_tipo = t,
                        gr_campos_sugeridos =
                          [(''error'', JStr ''No se pudo parsear la respuesta''),
                           (''raw'', JStr (take 500 (clean_content reply)))],
                        gr_referencias_usadas = refs,
                        gr_confidence = sum_list (map sr_similarity refs) / real (length refs)\<rparr>)"
proof -
  have calls: "snd (generate_fields E t d ob cp n calls) =
           calls @ [\<lparr>gc_model = env_model E,
                     gc_contents = with_context_prompt t (build_context refs) d ob cp,
                     gc_temperature = 3 / 10, gc_max_output_tokens = 4096\<rparr>]"
    unfolding generate_fields_nonempty(1)[OF assms] by (rule snd_generate_with_gemini)
  have degraded: "fst (generate_fields E t d ob cp n calls) =
                   Inr \<lparr>gr_success = True, gr_tipo = t,
                        gr_campos_sugeridos =
                          [(''error'', JStr ''No se pudo parsear la respuesta''),
                           (''raw'', JStr (take 500 (clean_content reply)))],
                        gr_referencias_usadas = refs,
                        gr_confidence = sum_list (map sr_similarity refs) / real (length refs)\<rparr>"
    if g: "env_generate E \<lparr>gc_model = env_model E,
                              gc_contents = with_context_prompt t (build_context refs) d ob cp,
                              gc_temperature = 3 / 10, gc_max_output_tokens = 4096\<rparr> = Inr (Some reply)"
       and l: "env_loads E (clean_content reply) = Inl JSONDecodeError"
          "\<forall>m. re_search_braces (clean_content reply) = Some m
                     \<longrightarrow> env_loads E m = Inl JSONDecodeError" for reply
  proof -
    have p: "parse_json_response (env_loads E) reply = Inr (error_payload (clean_content reply))"
      using l by (rule parse_json_response_unparseable)
    show ?thesis
      unfolding generate_fields_nonempty(2)[OF assms] fst_generate_with_gemini
      by (simp add: g parse_response_text_def p error_payload_def new_GenerateFieldsResponse_def)
  qed
  show ?thesis using calls degraded by blast
qed


theorem generate_fields_with_context_witness:
  "snd (generate_fields (sample_env sample_results ''no puedo'') BIEN None None None 5 []) =
     [\<lparr>gc_model = ''gemini-2.0-flash'',
       gc_contents = with_context_prompt BIEN (build_context sample_refs) None None None,
       gc_temperature = 3 / 10, gc_max_output_tokens = 4096\<rparr>]
   \<and> fst (generate_fields (sample_env sample_results ''no puedo'') BIEN None None None 5 []) =
     Inr \<lparr>gr_success = True, gr_tipo = BIEN,
          gr_campos_sugeridos =
            [(''error'', JStr ''No se pudo parsear la respuesta''), (''raw'', JStr ''no puedo'')],
          gr_referencias_usadas = sample_refs, gr_confidence = 7 / 12\<rparr>"
proof -
  let ?E = "sample_env sample_results ''no puedo''"
  have h: "search_similar_tdrs ?E (search_query BIEN None None None) (Some BIEN) 5
             = Inr sample_refs"
    by code_simp
  have ne: "sample_refs \<noteq> []" by (simp add: sample_refs_def)
  note T = generate_fields_with_context[OF h ne, of "[]"]
  have m: "env_model ?E = ''gemini-2.0-flash''" by (simp add: sample_env_def)
  have g: "env_generate ?E c = Inr (Some ''no puedo'')" for c
    by (simp add: sample_env_def)
  have l: "env_loads ?E = json_loads" by (simp add: sample_env_def)
  have l1: "env_loads ?E (clean_content ''no puedo'') = Inl JSONDecodeError"
    unfolding l by code_simp
  have l2: "re_search_braces (clean_content ''no puedo'') = None" by code_simp
  have l3: "take 500 (clean_content ''no puedo'') = ''no puedo''" by code_simp
  have c: "sum_list (map sr_similarity sample_refs) / real (length sample_refs) = 7 / 12"
    by (simp add: sample_refs_def)
  show ?thesis using T g l1 l2 by (simp add: m l3 c)
qed

subsection \<open>Search results\<close>


lemma build_search_result_parts:
  assumes "build_search_result loads results i rid = Inr r"
  obtains md d flds where "metadata_at results i = Inr md" and "distance_at results i = Inr d"
    and "similarity_of d = Inr (sr_similarity r)"
    and "parse_fields loads md = Inr (JObj flds)" and "sr_fields r = flds"
    and "TdrTipo_of (case md ''tipo'' of None \<Rightarrow> SStr ''SERVICIO'' | Some x \<Rightarrow> x) = Inr (sr_tipo r)"
    and "sr_id r = rid"
  using assms
  by (auto simp: build_search_result_def new_TdrSearchResult_def
           split: sum.splits if_splits scalar.splits json.splits)






text \<open>
  C3, as amended. The similarity of a search result is \<open>1 / (1 + d)\<close> for its distance
  \<open>d\<close>, computed in binary64: the sum is rounded, then the quotient, and the result is
  within \<open>2^-52\<close> of the exact value. For distances \<open>0 \<le> d1 \<le> d2\<close> the computation
  does not raise, the similarity of \<open>d1\<close> is greater than or equal to that of \<open>d2\<close>,
  the similarity of distance 0 is 1, and both similarities lie between 0 and 1.
\<close>

theorem similarity_transform:
  assumes "0 \<le> d1" and "d1 \<le> d2"
  shows "\<exists>s1 s2.
           similarity_of d1 = Inr s1 \<and> similarity_of d2 = Inr s2
         \<and> s1 = round_binary64 (1 / round_binary64 (1 + d1))
         \<and> s2 = round_binary64 (1 / round_binary64 (1 + d2))
         \<and> \<bar>s1 - 1 / (1 + d1)\<bar> \<le> 1 / 2 ^ 52 \<and> \<bar>s2 - 1 / (1 + d2)\<bar> \<le> 1 / 2 ^ 52
         \<and> s2 \<le> s1
         \<and> 0 \<le> s1 \<and> s1 \<le> 1 \<and> 0 \<le> s2 \<and> s2 \<le> 1
         \<and> similarity_of 0 = Inr 1
         \<and> (\<forall>loads results i rid r d.
               build_search_result loads results i rid = Inr r \<and> distance_at results i = Inr d
               \<longrightarrow> similarity_of d = Inr (sr_similarity r))"
proof -
  have d2: "0 \<le> d2" using assms by simp
  note n1 = similarity_of_nonneg[OF assms(1)]
  note n2 = similarity_of_nonneg[OF d2]
  have zero: "similarity_of 0 = Inr 1" by code_simp
  have res: "similarity_of d = Inr (sr_similarity r)"
    if "build_search_result loads results i rid = Inr r" "distance_at results i = Inr d"
    for loads results i rid r d
    using that(1) by (rule build_search_result_parts) (use that(2) in simp)
  show ?thesis
    using n1 n2 similarity_of_antimono[OF assms] similarity_of_close[OF assms(1)]
      similarity_of_close[OF d2] zero res
    by blast
qed

theorem similarity_transform_witness:
  "similarity_of 0 = Inr 1 \<and> similarity_of 1 = Inr (1 / 2) \<and> (1 / 2 :: real) \<le> 1
   \<and> build_search_result json_loads sample_results 2 ''c'' =
       Inr \<lparr>sr_id = ''c'', sr_filename = ''c.pdf'', sr_tipo = OBRA, sr_similarity = 1 / 4,
            sr_fields = []\<rparr>"
proof -
  have e0: "round_binary64 (1 / round_binary64 (1 + 0)) = 1" by code_simp
  have e1: "round_binary64 (1 / round_binary64 (1 + 1)) = 1 / 2" by code_simp
  have a: "similarity_of 0 = Inr 1 \<and> similarity_of 1 = Inr (1 / 2) \<and> (1 / 2 :: real) \<le> 1"
    using similarity_transform [of 0 1] unfolding e0 e1 by auto
  have b: "build_search_result json_loads sample_results 2 ''c'' =
       Inr \<lparr>sr_id = ''c'', sr_filename = ''c.pdf'', sr_tipo = OBRA, sr_similarity = 1 / 4,
            sr_fields = []\<rparr>"
    by code_simp
  show ?thesis using a b by blast
qed

text \<open>
  C3 as stated fails in binary64: the distance \<open>2^-60\<close> is positive, yet \<open>1 + 2^-60\<close>
  rounds to 1, so its similarity is 1, the same as that of distance 0. The order is not
  strict, and a similarity of 1 does not mean a distance of 0.
\<close>

theorem similarity_transform_counterexample:
  "(0::real) < 1 / 2 ^ 60
   \<and> similarity_of 0 = Inr 1
   \<and> similarity_of (1 / 2 ^ 60) = Inr 1"
  by code_simp







subsection \<open>The context\<close>

lemma fields_loop_eq:
  "fields_loop kvs parts =
     parts @ map (\<lambda>(key, v). ''  '' @ key @ '': '' @ value_str v) (filter (\<lambda>(key, v). truthy v) kvs)"
  by (induction kvs arbitrary: parts) auto

lemma referencias_loop_eq:
  "referencias_loop i refs parts =
     parts @ concat (map (\<lambda>(j, ref). referencia_block j ref) (enumerate i refs))"
  by (induction refs arbitrary: i parts)
     (simp_all add: Let_def fields_loop_eq referencia_block_def field_lines_def)

lemma length_value_str: "length (value_str v) \<le> 500"
  by (cases v) (simp_all add: value_str_def)

text \<open>
  C6. The context of the empty list is the empty string. The context of a list of
  references is the newline-joined concatenation of one block per reference, ranks
  counted from 1; a block starts with the header that shows the rank and the similarity
  printed with 2 decimals (the value rounded to hundredths); a block holds at most 15
  field lines, each for one of the first 15 fields, and every rendered value is at most
  500 characters long.
\<close>

theorem build_context_blocks:
  "build_context [] = []
   \<and> build_context refs =
       join [CHR 0x0A] (concat (map (\<lambda>(i, ref). referencia_block i ref) (enumerate 1 refs)))
   \<and> (\<forall>i ref. hd (referencia_block i ref) =
         ''=== REFERENCIA '' @ str_nat i @ '' (Similaridad: '' @ format_2f (sr_similarity ref)
           @ '') ==='')
   \<and> (\<forall>x. \<exists>n. format_2f x =
           (if x < 0 then ''-'' else []) @ str_nat (n div 100) @ ''.'' @
           [digit_char (n mod 100 div 10), digit_char (n mod 10)]
         \<and> \<bar>real n / 100 - \<bar>x\<bar>\<bar> \<le> 1 / 200)
   \<and> (\<forall>ref\<in>set refs.
         length (field_lines (sr_fields ref)) \<le> 15
         \<and> (\<forall>line\<in>set (field_lines (sr_fields ref)).
               \<exists>key v. (key, v) \<in> set (take 15 (sr_fields ref)) \<and> truthy v
                 \<and> line = ''  '' @ key @ '': '' @ value_str v \<and> length (value_str v) \<le> 500))"
proof -
  have empty: "build_context [] = []" by (simp add: build_context_def)
  have blocks: "build_context refs =
       join [CHR 0x0A] (concat (map (\<lambda>(i, ref). referencia_block i ref) (enumerate 1 refs)))"
    by (simp add: build_context_def referencias_loop_eq)
  have header: "hd (referencia_block i ref) =
         ''=== REFERENCIA '' @ str_nat i @ '' (Similaridad: '' @ format_2f (sr_similarity ref)
           @ '') ===''" for i ref
    by (simp add: referencia_block_def referencia_header_def)
  have rounded: "\<exists>n. format_2f x =
           (if x < 0 then ''-'' else []) @ str_nat (n div 100) @ ''.'' @
           [digit_char (n mod 100 div 10), digit_char (n mod 10)]
         \<and> \<bar>real n / 100 - \<bar>x\<bar>\<bar> \<le> 1 / 200" for x
  proof -
    define n where "n = nat (round_half_even (\<bar>x\<bar> * 100))"
    have c: "\<bar>real_of_int (round_half_even (\<bar>x\<bar> * 100)) - \<bar>x\<bar> * 100\<bar> \<le> 1 / 2"
      by (rule round_half_even_close)
    have "0 \<le> round_half_even (\<bar>x\<bar> * 100)"
      by (rule round_half_even_nonneg) simp
    then have "real n = real_of_int (round_half_even (\<bar>x\<bar> * 100))" by (simp add: n_def)
    with c have "\<bar>real n / 100 - \<bar>x\<bar>\<bar> \<le> 1 / 200" by (simp add: field_simps abs_le_iff)
    moreover have "format_2f x =
           (if x < 0 then ''-'' else []) @ str_nat (n div 100) @ ''.'' @
           [digit_char (n mod 100 div 10), digit_char (n mod 10)]"
      by (simp add: format_2f_def n_def Let_def)
    ultimately show ?thesis by blast
  qed
  have bounds: "length (field_lines (sr_fields ref)) \<le> 15
         \<and> (\<forall>line\<in>set (field_lines (sr_fields ref)).
               \<exists>key v. (key, v) \<in> set (take 15 (sr_fields ref)) \<and> truthy v
                 \<and> line = ''  '' @ key @ '': '' @ value_str v \<and> length (value_str v) \<le> 500)" for ref
  proof -
    have "length (field_lines (sr_fields ref)) \<le> length (take 15 (sr_fields ref))"
      unfolding field_lines_def length_map by (rule length_filter_le)
    then have a: "length (field_lines (sr_fields ref)) \<le> 15" by simp
    have b: "\<exists>key v. (key, v) \<in> set (take 15 (sr_fields ref)) \<and> truthy v
                 \<and> line = ''  '' @ key @ '': '' @ value_str v \<and> length (value_str v) \<le> 500"
      if "line \<in> set (field_lines (sr_fields ref))" for line
      using that length_value_str by (auto simp: field_lines_def)
    show ?thesis using a b by blast
  qed
  show ?thesis
    by (intro conjI allI ballI; (rule empty blocks header rounded | use bounds in blast))
qed

theorem build_context_blocks_witness:
  "build_context sample_refs =
     join [CHR 0x0A]
       [''=== REFERENCIA 1 (Similaridad: 1.00) ==='', ''Archivo: a.pdf'', ''Tipo: BIEN'',
        ''  a: 1'', [],
        ''=== REFERENCIA 2 (Similaridad: 0.50) ==='', ''Archivo: '', ''Tipo: SERVICIO'', [],
        ''=== REFERENCIA 3 (Similaridad: 0.25) ==='', ''Archivo: c.pdf'', ''Tipo: OBRA'', []]
   \<and> length (sr_fields long_ref) = 21
   \<and> length (field_lines (sr_fields long_ref)) = 15
   \<and> value_str (JStr (replicate 600 (CHR ''x''))) = replicate 500 (CHR ''x'')
   \<and> format_2f (1 / 8) = ''0.12''"
proof -
  have "build_context sample_refs =
     join [CHR 0x0A]
       (concat (map (\<lambda>(i, ref). referencia_block i ref) (enumerate 1 sample_refs)))"
    using build_context_blocks[of sample_refs] by (rule conjunct2[THEN conjunct1])
  also have "\<dots> =
     join [CHR 0x0A]
       [''=== REFERENCIA 1 (Similaridad: 1.00) ==='', ''Archivo: a.pdf'', ''Tipo: BIEN'',
        ''  a: 1'', [],
        ''=== REFERENCIA 2 (Similaridad: 0.50) ==='', ''Archivo: '', ''Tipo: SERVICIO'', [],
        ''=== REFERENCIA 3 (Similaridad: 0.25) ==='', ''Archivo: c.pdf'', ''Tipo: OBRA'', []]"
    by code_simp
  finally have a: "build_context sample_refs =
     join [CHR 0x0A]
       [''=== REFERENCIA 1 (Similaridad: 1.00) ==='', ''Archivo: a.pdf'', ''Tipo: BIEN'',
        ''  a: 1'', [],
        ''=== REFERENCIA 2 (Similaridad: 0.50) ==='', ''Archivo: '', ''Tipo: SERVICIO'', [],
        ''=== REFERENCIA 3 (Similaridad: 0.25) ==='', ''Archivo: c.pdf'', ''Tipo: OBRA'', []]" .
  have b: "length (sr_fields long_ref) = 21" by code_simp
  have c: "length (field_lines (sr_fields long_ref)) = 15" by code_simp
  have d: "value_str (JStr (replicate 600 (CHR ''x''))) = replicate 500 (CHR ''x'')" by code_simp
  have e: "format_2f (1 / 8) = ''0.12''" by code_simp
  show ?thesis using a b c d e by (intro conjI)
qed

subsection \<open>The canonical text\<close>







subsection \<open>Batch insert\<close>

text \<open>
  C8. A batch insert whose four sequences do not all have the same length fails with
  the arity error and leaves the collection as it was: nothing is truncated and nothing
  of the batch is stored.
\<close>

theorem add_tdrs_batch_arity:
  assumes "length embeddings \<noteq> length ids \<or> length metadatas \<noteq> length ids
           \<or> length documents \<noteq> length ids"
  shows "add_tdrs_batch coll ids embeddings metadatas documents = (Inl ArityMismatch, coll)"
  using assms by (auto simp: add_tdrs_batch_def collection_add_def)

theorem add_tdrs_batch_arity_witness:
  "add_tdrs_batch [] [''a'', ''b''] [[0]] [Map.empty, Map.empty] [''x'', ''y'']
     = (Inl ArityMismatch, [])"
proof -
  have "length [[0::real]] \<noteq> length [''a'', ''b'']" by simp
  then show ?thesis by (intro add_tdrs_batch_arity disjI1)
qed

end
